theory Spec2Isabelle
  imports Complex_Main
begin

section \<open>Common: numbers, strings, errors\<close>

text \<open>
  Entity ids are the integers issued by \<^verbatim>\<open>getNextEntityId\<close>; they are modelled as
  naturals. Every other JavaScript \<^verbatim>\<open>number\<close> (coordinates, velocities, sizes) is
  modelled as an exact real: rounding of IEEE doubles is outside this development.
  A \<^verbatim>\<open>throw new GameError(msg)\<close> is the value \<open>Inl (GameError msg)\<close>.
\<close>

type_synonym EntityId = nat

datatype GameError = GameError string

text \<open>Decimal rendering of an integer id, as template strings and property keys use it.\<close>

definition digit_char :: "nat \<Rightarrow> char" where
  "digit_char d = ''0123456789'' ! d"

function Number_toString :: "nat \<Rightarrow> string" where
  "Number_toString n =
     (if n < 10 then [digit_char n]
      else Number_toString (n div 10) @ [digit_char (n mod 10)])"
  by pat_completeness auto
termination
  by (relation "measure id") auto

declare Number_toString.simps [simp del]

section \<open>AgentSystem (back/src/agent_system.ts)\<close>

record AgentComponent =
  ac_entityId :: EntityId
  ac_dirty :: bool
  ac_pinataId :: string
  ac_pinataToken :: string

text \<open>
  A JavaScript \<^verbatim>\<open>Map\<close> object keeps its entries in an internal slot; \<^verbatim>\<open>set\<close>,
  \<^verbatim>\<open>get\<close>, \<^verbatim>\<open>has\<close> and \<^verbatim>\<open>delete\<close> work on that slot and never create
  properties. The string-keyed properties the object has are the ones it inherits from
  \<^verbatim>\<open>Map.prototype\<close> and \<^verbatim>\<open>Object.prototype\<close>.
\<close>

definition Map_property_names :: "string list" where
  "Map_property_names =
     [''constructor'', ''clear'', ''delete'', ''entries'', ''forEach'', ''get'', ''has'',
      ''keys'', ''set'', ''size'', ''values'',
      ''__defineGetter__'', ''__defineSetter__'', ''hasOwnProperty'', ''__lookupGetter__'',
      ''__lookupSetter__'', ''isPrototypeOf'', ''propertyIsEnumerable'', ''toString'',
      ''valueOf'', ''__proto__'', ''toLocaleString'']"

text \<open>The operator \<^verbatim>\<open>key in map\<close>: the key is turned into a property name and looked
  up among the properties of the object; the entries are not consulted.\<close>

definition in_Map :: "EntityId \<Rightarrow> (EntityId \<rightharpoonup> 'v) \<Rightarrow> bool" where
  "in_Map key entries = (Number_toString key \<in> set Map_property_names)"

record AgentSystem =
  as_components :: "EntityId \<rightharpoonup> AgentComponent"

definition AgentSystem_new :: AgentSystem where
  "AgentSystem_new = \<lparr>as_components = Map.empty\<rparr>"

definition AgentSystem_addComponent :: "AgentComponent \<Rightarrow> AgentSystem \<Rightarrow> AgentSystem" where
  "AgentSystem_addComponent component s =
     s\<lparr>as_components := (as_components s)(ac_entityId component \<mapsto> component)\<rparr>"

definition AgentSystem_hasComponent :: "AgentSystem \<Rightarrow> EntityId \<Rightarrow> bool" where
  "AgentSystem_hasComponent s ident = in_Map ident (as_components s)"

definition AgentSystem_getComponent :: "AgentSystem \<Rightarrow> EntityId \<Rightarrow> GameError + AgentComponent" where
  "AgentSystem_getComponent s ident =
     (case as_components s ident of
        None \<Rightarrow> Inl (GameError (''No agent component for entity '' @ Number_toString ident))
      | Some c \<Rightarrow> Inr c)"

definition AgentSystem_removeComponent :: "EntityId \<Rightarrow> AgentSystem \<Rightarrow> AgentSystem" where
  "AgentSystem_removeComponent ident s =
     s\<lparr>as_components := (as_components s)(ident := None)\<rparr>"

definition example_agent :: "EntityId \<Rightarrow> AgentComponent" where
  "example_agent i = \<lparr>ac_entityId = i, ac_dirty = True, ac_pinataId = ''p'', ac_pinataToken = ''t''\<rparr>"

definition example_agents :: AgentSystem where
  "example_agents =
     AgentSystem_addComponent (example_agent 7)
       (AgentSystem_addComponent (example_agent 12) AgentSystem_new)"

section \<open>Physics adapter: FreeModeImpl (back/src/free_mode_impl.ts)\<close>

subsection \<open>Data\<close>

text \<open>
  The enum \<^verbatim>\<open>Direction\<close> of common/definitions.ts is not among the sources; its
  members are the four the adapter and its callers name.
\<close>

datatype Direction = UP | RIGHT | DOWN | LEFT

record Vector =
  vec_x :: real
  vec_y :: real

record Bounds =
  bounds_min :: Vector
  bounds_max :: Vector

text \<open>
  A rigid body of the physics engine, with the fields the adapter reads or writes. Bodies
  are objects shared between the engine's world, the components and the contact pairs, so
  they live in a store indexed by the engine's unique body id and everything else holds
  that id.
\<close>

type_synonym BodyId = nat

record Body =
  body_bounds :: Bounds
  body_position :: Vector
  body_velocity :: Vector

record Contact =
  contact_id :: string
  contact_vertex :: Vector

text \<open>A contact pair as the engine reports it; \<open>pair_activeContacts\<close> and
  \<open>pair_contacts\<close> are the values of the pair's two contact tables.\<close>

record Pair =
  pair_id :: string
  pair_bodyA :: BodyId
  pair_bodyB :: BodyId
  pair_activeContacts :: "Contact list"
  pair_contacts :: "Contact list"

record FreeModeSubcomponent =
  fm_entityId :: EntityId
  fm_body :: BodyId

datatype GameEvent =
    ENTITY_COLLISION "EntityId list" EntityId EntityId
  | ENTITY_MOVED EntityId Direction

text \<open>
  The adapter's state: the engine's world (the ids of the bodies in it, in order) and body
  store, the two lookup tables, the grounded table (entity id to contact id), the table of
  active pairs, and the events handed to the entity manager so far.
\<close>

record FreeModeImpl =
  world_bodies :: "BodyId list"
  heap_bodies :: "BodyId \<Rightarrow> Body"
  componentsByEntityId :: "EntityId \<rightharpoonup> FreeModeSubcomponent"
  componentsByBodyId :: "BodyId \<rightharpoonup> FreeModeSubcomponent"
  grounded :: "EntityId \<rightharpoonup> string"
  collisions :: "string \<rightharpoonup> Pair"
  posted :: "GameEvent list"

text \<open>
  What the adapter is constructed with or imports, and the sources do not hold: the block
  size, the direction-to-vector table of common/geometry.ts, the gravity region's
  containment test (\<^verbatim>\<open>Span2d.contains\<close>) and the mode-transition callback, which may
  change the adapter's state (a transition removes the component).
\<close>

record FreeModeEnv =
  BLOCK_SZ_WLD :: real
  directionToVector :: "Direction \<Rightarrow> Vector"
  gravRegion_contains :: "int \<Rightarrow> int \<Rightarrow> bool"
  attemptModeTransitionFn ::
    "EntityId \<Rightarrow> real \<Rightarrow> real \<Rightarrow> Direction \<Rightarrow> FreeModeImpl \<Rightarrow> bool \<times> FreeModeImpl"

definition PLAYER_VELOCITY_H :: real where
  "PLAYER_VELOCITY_H = 6"

definition PLAYER_VELOCITY_V :: real where
  "PLAYER_VELOCITY_V = 10"

subsection \<open>Ground contacts\<close>

definition isInside :: "real \<Rightarrow> real \<Rightarrow> real \<Rightarrow> real \<Rightarrow> real \<Rightarrow> real \<Rightarrow> bool" where
  "isInside rectX rectY rectW rectH ptX ptY =
     (rectX \<le> ptX \<and> ptX \<le> rectX + rectW \<and> rectY \<le> ptY \<and> ptY \<le> rectY + rectH)"

definition isGroundContact :: "Body \<Rightarrow> Contact \<Rightarrow> bool" where
  "isGroundContact body contact =
     (let xMin = vec_x (bounds_min (body_bounds body));
          xMax = vec_x (bounds_max (body_bounds body));
          yMax = vec_y (bounds_max (body_bounds body));
          w = xMax - xMin;
          hotSpotW = 0.5 * w;
          hotSpotH = 8;
          hotSpotX = xMin + 0.5 * (w - hotSpotW);
          hotSpotY = yMax - 0.5 * hotSpotH
      in isInside hotSpotX hotSpotY hotSpotW hotSpotH
           (vec_x (contact_vertex contact)) (vec_y (contact_vertex contact)))"

text \<open>
  The hot spot as the specification words it: half the width of the bounding box,
  8 units high, horizontally centred, and flush with the bottom edge, that is lying inside
  the box with its lower side on the box's lower side (y grows downwards, so the bottom
  edge is \<open>yMax\<close>).
\<close>

definition flush_hot_spot :: "Bounds \<Rightarrow> (real \<times> real) set" where
  "flush_hot_spot b =
     (let xMin = vec_x (bounds_min b); xMax = vec_x (bounds_max b);
          yMax = vec_y (bounds_max b); w = xMax - xMin
      in {(px, py). xMin + w / 4 \<le> px \<and> px \<le> xMin + w / 4 + w / 2
                  \<and> yMax - 8 \<le> py \<and> py \<le> yMax})"

text \<open>The hot spot the code tests: the same width and height, centred on the bottom
  edge, so that it reaches 4 units above and 4 units below it.\<close>

definition straddling_hot_spot :: "Bounds \<Rightarrow> (real \<times> real) set" where
  "straddling_hot_spot b =
     (let xMin = vec_x (bounds_min b); xMax = vec_x (bounds_max b);
          yMax = vec_y (bounds_max b); w = xMax - xMin
      in {(px, py). xMin + w / 4 \<le> px \<and> px \<le> xMin + w / 4 + w / 2
                  \<and> yMax - 4 \<le> py \<and> py \<le> yMax + 4})"

definition contact_point :: "Contact \<Rightarrow> real \<times> real" where
  "contact_point contact = (vec_x (contact_vertex contact), vec_y (contact_vertex contact))"

subsection \<open>Collision handlers\<close>

definition postEvent :: "GameEvent \<Rightarrow> FreeModeImpl \<Rightarrow> FreeModeImpl" where
  "postEvent event s = s\<lparr>posted := posted s @ [event]\<rparr>"

text \<open>One \<^verbatim>\<open>if (a && isGroundContact(a.body, contact))\<close> of the active handler.\<close>

definition setGrounded :: "FreeModeSubcomponent option \<Rightarrow> Contact \<Rightarrow> FreeModeImpl \<Rightarrow> FreeModeImpl" where
  "setGrounded a contact s =
     (case a of
        None \<Rightarrow> s
      | Some ca \<Rightarrow>
          if isGroundContact (heap_bodies s (fm_body ca)) contact
          then s\<lparr>grounded := (grounded s)(fm_entityId ca \<mapsto> contact_id contact)\<rparr>
          else s)"

definition activeContact :: "FreeModeSubcomponent option \<Rightarrow> FreeModeSubcomponent option \<Rightarrow>
    Contact \<Rightarrow> FreeModeImpl \<Rightarrow> FreeModeImpl" where
  "activeContact a b contact s = setGrounded b contact (setGrounded a contact s)"

text \<open>The body of the \<^verbatim>\<open>collisionActive\<close> handler for one pair.\<close>

definition collisionActive_pair :: "Pair \<Rightarrow> FreeModeImpl \<Rightarrow> FreeModeImpl" where
  "collisionActive_pair pair s =
     (let a = componentsByBodyId s (pair_bodyA pair);
          b = componentsByBodyId s (pair_bodyB pair);
          s1 = (if collisions s (pair_id pair) = None
                then (let s' = s\<lparr>collisions := (collisions s)(pair_id pair \<mapsto> pair)\<rparr>
                      in case a of
                           None \<Rightarrow> s'
                         | Some ca \<Rightarrow>
                             (case b of
                                None \<Rightarrow> s'
                              | Some cb \<Rightarrow>
                                  postEvent
                                    (ENTITY_COLLISION [fm_entityId ca, fm_entityId cb]
                                       (fm_entityId ca) (fm_entityId cb)) s'))
                else s)
      in fold (activeContact a b) (pair_activeContacts pair) s1)"

definition collisionActive :: "Pair list \<Rightarrow> FreeModeImpl \<Rightarrow> FreeModeImpl" where
  "collisionActive pairs s = fold collisionActive_pair pairs s"

text \<open>One \<^verbatim>\<open>if (a) { if (contact.id === this._grounded.get(a.entityId)) ... }\<close> of the
  end handler.\<close>

definition clearGrounded :: "FreeModeSubcomponent option \<Rightarrow> Contact \<Rightarrow> FreeModeImpl \<Rightarrow> FreeModeImpl" where
  "clearGrounded a contact s =
     (case a of
        None \<Rightarrow> s
      | Some ca \<Rightarrow>
          if grounded s (fm_entityId ca) = Some (contact_id contact)
          then s\<lparr>grounded := (grounded s)(fm_entityId ca := None)\<rparr>
          else s)"

definition endContact :: "FreeModeSubcomponent option \<Rightarrow> FreeModeSubcomponent option \<Rightarrow>
    Contact \<Rightarrow> FreeModeImpl \<Rightarrow> FreeModeImpl" where
  "endContact a b contact s = clearGrounded b contact (clearGrounded a contact s)"

definition collisionEnd_pair :: "Pair \<Rightarrow> FreeModeImpl \<Rightarrow> FreeModeImpl" where
  "collisionEnd_pair pair s =
     (let a = componentsByBodyId s (pair_bodyA pair);
          b = componentsByBodyId s (pair_bodyB pair);
          s1 = (if collisions s (pair_id pair) \<noteq> None
                then s\<lparr>collisions := (collisions s)(pair_id pair := None)\<rparr>
                else s)
      in fold (endContact a b) (pair_contacts pair) s1)"

definition collisionEnd :: "Pair list \<Rightarrow> FreeModeImpl \<Rightarrow> FreeModeImpl" where
  "collisionEnd pairs s = fold collisionEnd_pair pairs s"

text \<open>
  The engine's collision notifications, in the order the engine raises them. The adapter
  registers a listener for \<^verbatim>\<open>collisionActive\<close> and one for \<^verbatim>\<open>collisionEnd\<close>; it
  registers none for \<^verbatim>\<open>collisionStart\<close>, which the engine raises for a pair in the
  update in which its contact begins, so that notification leaves the adapter as it is.
\<close>

datatype EngineEvent =
    CollisionStart "Pair list"
  | CollisionActive "Pair list"
  | CollisionEnd "Pair list"

fun handleEngineEvent :: "EngineEvent \<Rightarrow> FreeModeImpl \<Rightarrow> FreeModeImpl" where
  "handleEngineEvent (CollisionStart pairs) s = s"
| "handleEngineEvent (CollisionActive pairs) s = collisionActive pairs s"
| "handleEngineEvent (CollisionEnd pairs) s = collisionEnd pairs s"

definition handleEngineEvents :: "EngineEvent list \<Rightarrow> FreeModeImpl \<Rightarrow> FreeModeImpl" where
  "handleEngineEvents events s = fold handleEngineEvent events s"

subsection \<open>Component table\<close>

definition FreeModeImpl_getComponent :: "FreeModeImpl \<Rightarrow> EntityId \<Rightarrow> GameError + FreeModeSubcomponent" where
  "FreeModeImpl_getComponent s ident =
     (case componentsByEntityId s ident of
        None \<Rightarrow> Inl (GameError (''No spatial component for entity '' @ Number_toString ident))
      | Some c \<Rightarrow> Inr c)"

definition FreeModeImpl_removeComponent :: "FreeModeSubcomponent \<Rightarrow> FreeModeImpl \<Rightarrow> FreeModeImpl" where
  "FreeModeImpl_removeComponent c s =
     s\<lparr>world_bodies := filter (\<lambda>b. b \<noteq> fm_body c) (world_bodies s),
       componentsByEntityId := (componentsByEntityId s)(fm_entityId c := None),
       componentsByBodyId := (componentsByBodyId s)(fm_body c := None),
       grounded := (grounded s)(fm_entityId c := None)\<rparr>"

subsection \<open>Movement\<close>

text \<open>
  Modelled from the spec: \<^verbatim>\<open>vecMult\<close> of common/geometry.ts is not among the sources.
  It scales a vector by a factor, which makes the probe of \<^verbatim>\<open>_tryLeaveGravRegion\<close> the
  "fractional offset in the movement direction" of section 4.3.
\<close>

definition vecMult :: "Vector \<Rightarrow> real \<Rightarrow> Vector" where
  "vecMult v k = \<lparr>vec_x = vec_x v * k, vec_y = vec_y v * k\<rparr>"

text \<open>
  Modelled from the spec: the class \<^verbatim>\<open>FreeModeSubcomponent\<close> is not among the sources.
  By section 3 it "holds a continuous position/angle pair backed by a physics-engine body
  handle": its accessors \<^verbatim>\<open>x()\<close> and \<^verbatim>\<open>y()\<close> read the position of its body.
\<close>

definition fm_x :: "FreeModeSubcomponent \<Rightarrow> FreeModeImpl \<Rightarrow> real" where
  "fm_x c s = vec_x (body_position (heap_bodies s (fm_body c)))"

definition fm_y :: "FreeModeSubcomponent \<Rightarrow> FreeModeImpl \<Rightarrow> real" where
  "fm_y c s = vec_y (body_position (heap_bodies s (fm_body c)))"

text \<open>
  Modelled from the spec: \<^verbatim>\<open>FreeModeSubcomponent._postMoveEvent(em, direction)\<close> is not
  among the sources. By section 2 the spatial system's mutations are followed by movement
  events the behaviour system reacts to: the call hands one movement event for the entity
  to the entity manager and touches nothing else.
\<close>

definition postMoveEvent :: "FreeModeSubcomponent \<Rightarrow> Direction \<Rightarrow> FreeModeImpl \<Rightarrow> FreeModeImpl" where
  "postMoveEvent c direction s = postEvent (ENTITY_MOVED (fm_entityId c) direction) s"

text \<open>The engine's \<^verbatim>\<open>Body.setVelocity\<close>: the body's velocity becomes the given vector;
  its position and bounds stay.\<close>

definition Body_setVelocity :: "BodyId \<Rightarrow> Vector \<Rightarrow> FreeModeImpl \<Rightarrow> FreeModeImpl" where
  "Body_setVelocity body velocity s =
     s\<lparr>heap_bodies := (heap_bodies s)(body := (heap_bodies s body)\<lparr>body_velocity := velocity\<rparr>)\<rparr>"

definition bodyGrounded :: "FreeModeImpl \<Rightarrow> EntityId \<Rightarrow> bool" where
  "bodyGrounded s entityId = (grounded s entityId \<noteq> None)"

definition tryLeaveGravRegion ::
    "FreeModeEnv \<Rightarrow> FreeModeSubcomponent \<Rightarrow> Direction \<Rightarrow> FreeModeImpl \<Rightarrow> bool \<times> FreeModeImpl" where
  "tryLeaveGravRegion env c direction s =
     (let v = vecMult (directionToVector env direction) (BLOCK_SZ_WLD env);
          u = directionToVector env direction;
          probeLen = BLOCK_SZ_WLD env * 0.25;
          probe = \<lparr>vec_x = 0.5 * vec_x v + vec_x u * probeLen,
                   vec_y = 0.5 * vec_y v + vec_y u * probeLen\<rparr>;
          centreX = fm_x c s + 0.5 * BLOCK_SZ_WLD env;
          centreY = fm_y c s + 0.5 * BLOCK_SZ_WLD env;
          gridX = \<lfloor>(centreX + vec_x probe) / BLOCK_SZ_WLD env\<rfloor>;
          gridY = \<lfloor>(centreY + vec_y probe) / BLOCK_SZ_WLD env\<rfloor>
      in if \<not> gravRegion_contains env gridX gridY
         then attemptModeTransitionFn env (fm_entityId c)
                (of_int gridX * BLOCK_SZ_WLD env) (of_int gridY * BLOCK_SZ_WLD env) direction s
         else (False, s))"

definition moveAgent ::
    "FreeModeEnv \<Rightarrow> EntityId \<Rightarrow> Direction \<Rightarrow> FreeModeImpl \<Rightarrow> GameError + (bool \<times> FreeModeImpl)" where
  "moveAgent env ident direction s =
     (case FreeModeImpl_getComponent s ident of
        Inl e \<Rightarrow> Inl e
      | Inr c \<Rightarrow>
          (case tryLeaveGravRegion env c direction s of
             (left, s1) \<Rightarrow>
               if \<not> left then
                 if direction = UP \<and> \<not> bodyGrounded s1 (fm_entityId c) then Inr (False, s1)
                 else if direction = DOWN then Inr (True, s1)
                 else
                   (let dir = directionToVector env direction;
                        vec = \<lparr>vec_x = vec_x dir * PLAYER_VELOCITY_H,
                               vec_y = vec_y dir * PLAYER_VELOCITY_V\<rparr>;
                        velocity =
                          \<lparr>vec_x = (if vec_x vec \<noteq> 0 then vec_x vec
                                    else vec_x (body_velocity (heap_bodies s1 (fm_body c)))),
                           vec_y = (if vec_y vec \<noteq> 0 then vec_y vec
                                    else vec_y (body_velocity (heap_bodies s1 (fm_body c))))\<rparr>;
                        s2 = Body_setVelocity (fm_body c) velocity s1
                    in Inr (True, postMoveEvent c direction s2))
               else Inr (True, postMoveEvent c direction s1)))"

text \<open>
  The movement probe as the specification words it: the entity's centre (its position plus
  half a block) plus half a block plus a quarter of a block in the movement direction,
  floored to grid coordinates.
\<close>

definition movement_probe :: "FreeModeEnv \<Rightarrow> FreeModeSubcomponent \<Rightarrow> Direction \<Rightarrow> FreeModeImpl \<Rightarrow> int \<times> int" where
  "movement_probe env c direction s =
     (let B = BLOCK_SZ_WLD env; u = directionToVector env direction
      in (\<lfloor>(fm_x c s + B / 2 + (B / 2 + B / 4) * vec_x u) / B\<rfloor>,
          \<lfloor>(fm_y c s + B / 2 + (B / 2 + B / 4) * vec_y u) / B\<rfloor>))"

text \<open>The directions as unit vectors along one axis: LEFT and RIGHT along x, UP and DOWN
  along y ("Only 1 component is non-zero", as \<^verbatim>\<open>moveAgent\<close> notes of the table).\<close>

definition axis_units :: "(Direction \<Rightarrow> Vector) \<Rightarrow> bool" where
  "axis_units d2v =
     ((vec_x (d2v LEFT) = 1 \<or> vec_x (d2v LEFT) = - 1) \<and> vec_y (d2v LEFT) = 0
      \<and> (vec_x (d2v RIGHT) = 1 \<or> vec_x (d2v RIGHT) = - 1) \<and> vec_y (d2v RIGHT) = 0
      \<and> vec_x (d2v UP) = 0 \<and> (vec_y (d2v UP) = 1 \<or> vec_y (d2v UP) = - 1)
      \<and> vec_x (d2v DOWN) = 0 \<and> (vec_y (d2v DOWN) = 1 \<or> vec_y (d2v DOWN) = - 1))"

subsection \<open>Region query\<close>

text \<open>The engine's \<^verbatim>\<open>Bounds.overlaps\<close> and \<^verbatim>\<open>Query.region\<close>: the bodies of the
  list whose bounds overlap the given bounds, in the list's order.\<close>

definition Bounds_overlaps :: "Bounds \<Rightarrow> Bounds \<Rightarrow> bool" where
  "Bounds_overlaps boundsA boundsB =
     (vec_x (bounds_min boundsA) \<le> vec_x (bounds_max boundsB)
      \<and> vec_x (bounds_max boundsA) \<ge> vec_x (bounds_min boundsB)
      \<and> vec_y (bounds_max boundsA) \<ge> vec_y (bounds_min boundsB)
      \<and> vec_y (bounds_min boundsA) \<le> vec_y (bounds_max boundsB))"

definition Query_region :: "(BodyId \<Rightarrow> Body) \<Rightarrow> BodyId list \<Rightarrow> Bounds \<Rightarrow> BodyId list" where
  "Query_region store bodies bounds =
     filter (\<lambda>body. Bounds_overlaps (body_bounds (store body)) bounds) bodies"

text \<open>A JavaScript \<^verbatim>\<open>Set\<close> keeps each element once, in insertion order.\<close>

definition Set_add :: "'a \<Rightarrow> 'a list \<Rightarrow> 'a list" where
  "Set_add v vs = (if v \<in> set vs then vs else vs @ [v])"

definition entitiesWithinRadius :: "FreeModeImpl \<Rightarrow> real \<Rightarrow> real \<Rightarrow> real \<Rightarrow> EntityId list" where
  "entitiesWithinRadius s x y r =
     (let bodies = Query_region (heap_bodies s) (world_bodies s)
                     \<lparr>bounds_min = \<lparr>vec_x = x - r, vec_y = y - r\<rparr>,
                      bounds_max = \<lparr>vec_x = x + r, vec_y = y + r\<rparr>\<rparr>
      in fold (\<lambda>body entities.
                 case componentsByBodyId s body of
                   None \<Rightarrow> entities
                 | Some c \<Rightarrow> Set_add (fm_entityId c) entities)
           bodies [])"

text \<open>The points of a bounding region, and of the query square.\<close>

definition Bounds_points :: "Bounds \<Rightarrow> (real \<times> real) set" where
  "Bounds_points b =
     {(px, py). vec_x (bounds_min b) \<le> px \<and> px \<le> vec_x (bounds_max b)
              \<and> vec_y (bounds_min b) \<le> py \<and> py \<le> vec_y (bounds_max b)}"

definition square_points :: "real \<Rightarrow> real \<Rightarrow> real \<Rightarrow> (real \<times> real) set" where
  "square_points x y r = {(px, py). x - r \<le> px \<and> px \<le> x + r \<and> y - r \<le> py \<and> py \<le> y + r}"

definition Bounds_wf :: "Bounds \<Rightarrow> bool" where
  "Bounds_wf b =
     (vec_x (bounds_min b) \<le> vec_x (bounds_max b) \<and> vec_y (bounds_min b) \<le> vec_y (bounds_max b))"

subsection \<open>Collision events, in the specification's words\<close>

text \<open>
  The pair ids that count as active after a notification, given those that counted
  before: a \<^verbatim>\<open>collisionActive\<close> report makes its pairs active, a \<^verbatim>\<open>collisionEnd\<close>
  report ends its pairs, a \<^verbatim>\<open>collisionStart\<close> report is not heard.
\<close>

fun track_active :: "EngineEvent \<Rightarrow> string set \<Rightarrow> string set" where
  "track_active (CollisionStart pairs) K = K"
| "track_active (CollisionActive pairs) K = K \<union> pair_id ` set pairs"
| "track_active (CollisionEnd pairs) K = K - pair_id ` set pairs"

text \<open>The pairs of a report that become active with it: those whose id is not among the
  active ids \<open>K\<close> and not borne by an earlier pair of the same report.\<close>

fun new_reports :: "string set \<Rightarrow> Pair list \<Rightarrow> Pair list" where
  "new_reports K [] = []"
| "new_reports K (q # qs) =
     (if pair_id q \<in> K then new_reports K qs else q # new_reports (insert (pair_id q) K) qs)"

text \<open>The collision event of a pair: one event naming the two entities when both bodies
  are in the body-id table, none otherwise.\<close>

definition collision_event :: "(BodyId \<rightharpoonup> FreeModeSubcomponent) \<Rightarrow> Pair \<Rightarrow> GameEvent list" where
  "collision_event tbl q =
     (case tbl (pair_bodyA q) of
        None \<Rightarrow> []
      | Some a \<Rightarrow>
          (case tbl (pair_bodyB q) of
             None \<Rightarrow> []
           | Some b \<Rightarrow>
               [ENTITY_COLLISION [fm_entityId a, fm_entityId b] (fm_entityId a) (fm_entityId b)]))"

subsection \<open>Grounded bookkeeping, in the specification's words\<close>

text \<open>Whether a contact grounds entity \<open>e\<close> through the component found for one body of
  a pair, and whether a pair concerns entity \<open>e\<close> at all.\<close>

definition grounds_entity :: "FreeModeImpl \<Rightarrow> FreeModeSubcomponent option \<Rightarrow> EntityId \<Rightarrow> Contact \<Rightarrow> bool" where
  "grounds_entity s a e contact =
     (case a of
        None \<Rightarrow> False
      | Some ca \<Rightarrow> fm_entityId ca = e \<and> isGroundContact (heap_bodies s (fm_body ca)) contact)"

definition ground_contacts_of :: "FreeModeImpl \<Rightarrow> Pair \<Rightarrow> EntityId \<Rightarrow> Contact list" where
  "ground_contacts_of s pair e =
     filter (\<lambda>contact. grounds_entity s (componentsByBodyId s (pair_bodyA pair)) e contact
                      \<or> grounds_entity s (componentsByBodyId s (pair_bodyB pair)) e contact)
       (pair_activeContacts pair)"

definition is_entity_of :: "FreeModeSubcomponent option \<Rightarrow> EntityId \<Rightarrow> bool" where
  "is_entity_of a e = (case a of None \<Rightarrow> False | Some ca \<Rightarrow> fm_entityId ca = e)"

definition pair_concerns :: "FreeModeImpl \<Rightarrow> Pair \<Rightarrow> EntityId \<Rightarrow> bool" where
  "pair_concerns s pair e =
     (is_entity_of (componentsByBodyId s (pair_bodyA pair)) e
      \<or> is_entity_of (componentsByBodyId s (pair_bodyB pair)) e)"

subsection \<open>A small world for concrete runs\<close>

text \<open>Two tracked 32 by 32 boxes (body 21 of entity 5, body 22 of entity 6) and an untracked
  fence (body 23).\<close>

definition box_at :: "real \<Rightarrow> real \<Rightarrow> real \<Rightarrow> real \<Rightarrow> Body" where
  "box_at x y w h =
     \<lparr>body_bounds = \<lparr>bounds_min = \<lparr>vec_x = x, vec_y = y\<rparr>,
                     bounds_max = \<lparr>vec_x = x + w, vec_y = y + h\<rparr>\<rparr>,
      body_position = \<lparr>vec_x = x, vec_y = y\<rparr>,
      body_velocity = \<lparr>vec_x = 3, vec_y = 2\<rparr>\<rparr>"

definition example_box :: Body where
  "example_box = box_at 0 0 32 32"

definition contact_at :: "string \<Rightarrow> real \<Rightarrow> real \<Rightarrow> Contact" where
  "contact_at k px py = \<lparr>contact_id = k, contact_vertex = \<lparr>vec_x = px, vec_y = py\<rparr>\<rparr>"

definition example_component :: "EntityId \<Rightarrow> BodyId \<Rightarrow> FreeModeSubcomponent" where
  "example_component e b = \<lparr>fm_entityId = e, fm_body = b\<rparr>"

definition example_world :: FreeModeImpl where
  "example_world =
     \<lparr>world_bodies = [23, 21, 22],
      heap_bodies = (\<lambda>b. if b = 21 then example_box
                          else if b = 22 then box_at 32 0 32 32
                          else box_at 0 32 160 16),
      componentsByEntityId = [5 \<mapsto> example_component 5 21, 6 \<mapsto> example_component 6 22],
      componentsByBodyId = [21 \<mapsto> example_component 5 21, 22 \<mapsto> example_component 6 22],
      grounded = Map.empty,
      collisions = Map.empty,
      posted = []\<rparr>"

definition example_pair :: Pair where
  "example_pair =
     \<lparr>pair_id = ''A21B22'', pair_bodyA = 21, pair_bodyB = 22,
      pair_activeContacts = [contact_at ''21_2'' 32 30],
      pair_contacts = [contact_at ''21_2'' 32 30]\<rparr>"

definition example_floor_pair :: Pair where
  "example_floor_pair =
     \<lparr>pair_id = ''A21B23'', pair_bodyA = 21, pair_bodyB = 23,
      pair_activeContacts = [contact_at ''21_3'' 16 32],
      pair_contacts = [contact_at ''21_3'' 16 32, contact_at ''21_2'' 0 32]\<rparr>"

text \<open>The same world after the engine reported box 21 resting on the fence.\<close>

definition example_grounded_world :: FreeModeImpl where
  "example_grounded_world = collisionActive [example_floor_pair] example_world"

definition example_directionToVector :: "Direction \<Rightarrow> Vector" where
  "example_directionToVector d =
     (case d of
        UP \<Rightarrow> \<lparr>vec_x = 0, vec_y = - 1\<rparr>
      | RIGHT \<Rightarrow> \<lparr>vec_x = 1, vec_y = 0\<rparr>
      | DOWN \<Rightarrow> \<lparr>vec_x = 0, vec_y = 1\<rparr>
      | LEFT \<Rightarrow> \<lparr>vec_x = - 1, vec_y = 0\<rparr>)"

text \<open>Blocks of 64 units, a gravity region of columns 0 to 4 and rows -2 to 4, and a
  transition callback that always fires and drops the component from the entity table.\<close>

definition example_env :: FreeModeEnv where
  "example_env =
     \<lparr>BLOCK_SZ_WLD = 64,
      directionToVector = example_directionToVector,
      gravRegion_contains = (\<lambda>x y. 0 \<le> x \<and> x \<le> 4 \<and> - 2 \<le> y \<and> y \<le> 4),
      attemptModeTransitionFn =
        (\<lambda>e x y d s. (True, s\<lparr>componentsByEntityId := (componentsByEntityId s)(e := None)\<rparr>))\<rparr>"

section \<open>Spatial component (back/src/spatial_component.ts and its earlier server version)\<close>

datatype SpatialMode = GRID_MODE | FREE_MODE

text \<open>
  The classes of the two subcomponents are not among the sources. A subcomponent is
  represented by what its accessors \<^verbatim>\<open>x()\<close>, \<^verbatim>\<open>y()\<close> and \<^verbatim>\<open>isDirty()\<close> (the field
  \<^verbatim>\<open>dirty\<close> in the earlier version) return when the spatial component reads them.
\<close>

record Subcomponent =
  sub_x :: real
  sub_y :: real
  sub_dirty :: bool

record CSpatial =
  cs_currentMode :: SpatialMode
  cs_gridMode :: Subcomponent
  cs_freeMode :: Subcomponent
  cs_teleport :: bool

definition CSpatial_isDirty :: "CSpatial \<Rightarrow> bool" where
  "CSpatial_isDirty c =
     (if cs_currentMode c = GRID_MODE then sub_dirty (cs_gridMode c)
      else sub_dirty (cs_freeMode c))"

definition CSpatial_x :: "CSpatial \<Rightarrow> real" where
  "CSpatial_x c =
     (if cs_currentMode c = GRID_MODE then sub_x (cs_gridMode c) else sub_x (cs_freeMode c))"

definition CSpatial_y :: "CSpatial \<Rightarrow> real" where
  "CSpatial_y c =
     (if cs_currentMode c = GRID_MODE then sub_y (cs_gridMode c) else sub_y (cs_freeMode c))"

text \<open>The earlier \<^verbatim>\<open>ServerSpatialComponent\<close>: its \<^verbatim>\<open>isDirty\<close> is
  \<^verbatim>\<open>return this.gridMode.dirty;// || this.freeMode.dirty;\<close>.\<close>

record ServerSpatialComponent =
  ssc_currentMode :: SpatialMode
  ssc_gridMode :: Subcomponent
  ssc_freeMode :: Subcomponent

definition ServerSpatialComponent_isDirty :: "ServerSpatialComponent \<Rightarrow> bool" where
  "ServerSpatialComponent_isDirty c = sub_dirty (ssc_gridMode c)"

definition ServerSpatialComponent_x :: "ServerSpatialComponent \<Rightarrow> real" where
  "ServerSpatialComponent_x c =
     (if ssc_currentMode c = GRID_MODE then sub_x (ssc_gridMode c) else sub_x (ssc_freeMode c))"

definition ServerSpatialComponent_y :: "ServerSpatialComponent \<Rightarrow> real" where
  "ServerSpatialComponent_y c =
     (if ssc_currentMode c = GRID_MODE then sub_y (ssc_gridMode c) else sub_y (ssc_freeMode c))"

text \<open>The specification's "whichever subcomponent is current".\<close>

definition current_subcomponent :: "SpatialMode \<Rightarrow> Subcomponent \<Rightarrow> Subcomponent \<Rightarrow> Subcomponent" where
  "current_subcomponent mode gridMode freeMode =
     (case mode of GRID_MODE \<Rightarrow> gridMode | FREE_MODE \<Rightarrow> freeMode)"

definition example_server_component :: ServerSpatialComponent where
  "example_server_component =
     \<lparr>ssc_currentMode = FREE_MODE,
      ssc_gridMode = \<lparr>sub_x = 2, sub_y = 2, sub_dirty = False\<rparr>,
      ssc_freeMode = \<lparr>sub_x = 330, sub_y = 135, sub_dirty = True\<rparr>\<rparr>"

section \<open>Render system: playAnimation (front/src/terrestria/render_system.ts)\<close>

text \<open>
  An animation of a sprite component: the flags of its animated sprite that
  \<^verbatim>\<open>playAnimation\<close> writes, its end frame, and the handle of the scheduled function
  that shows the end frame. \<open>anim_onComplete\<close> is \<open>None\<close> while no completion callback is
  installed and \<open>Some f\<close> once \<^verbatim>\<open>playAnimation\<close> installed one, \<open>f\<close> telling whether the
  caller passed \<^verbatim>\<open>onFinish\<close>.
\<close>

record Animation =
  anim_loop :: bool
  anim_playing :: bool
  anim_currentFrame :: nat
  anim_endFrame :: "string option"
  anim_setEndFrameFnHandle :: int
  anim_onComplete :: "bool option"

datatype SpriteRef = AnimatedSprite string | StaticSprite string

text \<open>A sprite component; the active animation and the current sprite are references
  into the component's own two sprite tables, held as the table keys.\<close>

record CSprite =
  spr_animatedSprites :: "string \<rightharpoonup> Animation"
  spr_staticSprites :: "string list"
  spr_currentSprite :: "SpriteRef option"
  spr_activeAnimation :: "string option"

datatype CRender = SPRITE CSprite | SHAPE | TEXT | TILED_REGION

record RenderSystem =
  rs_components :: "EntityId \<rightharpoonup> CRender"
  rs_scheduled :: "int list"

text \<open>
  The placing of a component on the stage (\<^verbatim>\<open>_updateComponentPosition\<close>, which reads the
  spatial component from the entity manager and drives the drawing library) is taken as
  given: it may raise, and otherwise returns the render system it leaves.
\<close>

record RenderEnv =
  updateComponentPosition :: "EntityId \<Rightarrow> RenderSystem \<Rightarrow> GameError + RenderSystem"

text \<open>
  Modelled from the spec: the class \<^verbatim>\<open>Scheduler\<close> is not among the sources. By section 5
  a scheduled callback is a cancellable handle, and cancelling a handle that is not pending
  is a no-op: \<^verbatim>\<open>removeFunction\<close> drops the handle from the pending ones.
\<close>

definition Scheduler_removeFunction :: "int \<Rightarrow> RenderSystem \<Rightarrow> RenderSystem" where
  "Scheduler_removeFunction h rs = rs\<lparr>rs_scheduled := filter (\<lambda>k. k \<noteq> h) (rs_scheduled rs)\<rparr>"

definition RenderSystem_getComponent :: "RenderSystem \<Rightarrow> EntityId \<Rightarrow> GameError + CRender" where
  "RenderSystem_getComponent rs ident =
     (case rs_components rs ident of
        None \<Rightarrow> Inl (GameError (''No render component for entity '' @ Number_toString ident))
      | Some c \<Rightarrow> Inr c)"

definition getSpriteComponent :: "RenderSystem \<Rightarrow> EntityId \<Rightarrow> GameError + CSprite" where
  "getSpriteComponent rs ident =
     (case RenderSystem_getComponent rs ident of
        Inl e \<Rightarrow> Inl e
      | Inr (SPRITE c) \<Rightarrow> Inr c
      | Inr _ \<Rightarrow>
          Inl (GameError (''Render component (id='' @ Number_toString ident
                 @ '') is not of type SPRITE'')))"

text \<open>\<^verbatim>\<open>_spriteCompSetActiveSprite(c, name, animated)\<close> for the component \<open>c\<close> of entity
  \<open>ident\<close>; the component is written back to the table, where the caller's reference
  sees it.\<close>

definition spriteCompSetActiveSprite ::
    "RenderEnv \<Rightarrow> EntityId \<Rightarrow> CSprite \<Rightarrow> string \<Rightarrow> bool \<Rightarrow> RenderSystem \<Rightarrow> GameError + RenderSystem" where
  "spriteCompSetActiveSprite env ident c name animated rs =
     (let rs1 = (case spr_activeAnimation c of
                   None \<Rightarrow> rs
                 | Some active \<Rightarrow>
                     (case spr_animatedSprites c active of
                        None \<Rightarrow> rs
                      | Some a \<Rightarrow> Scheduler_removeFunction (anim_setEndFrameFnHandle a) rs))
      in if animated then
           (case spr_animatedSprites c name of
              None \<Rightarrow> Inl (GameError (''Component has no sprite with name '' @ name))
            | Some anim \<Rightarrow>
                updateComponentPosition env ident
                  (rs1\<lparr>rs_components := (rs_components rs1)(ident \<mapsto>
                     SPRITE (c\<lparr>spr_currentSprite := Some (AnimatedSprite name),
                               spr_activeAnimation := Some name\<rparr>))\<rparr>))
         else
           (if name \<in> set (spr_staticSprites c)
            then updateComponentPosition env ident
                   (rs1\<lparr>rs_components := (rs_components rs1)(ident \<mapsto>
                      SPRITE (c\<lparr>spr_currentSprite := Some (StaticSprite name)\<rparr>))\<rparr>)
            else Inl (GameError (''Component has no sprite with name '' @ name))))"

text \<open>The writes of \<^verbatim>\<open>playAnimation\<close> to the animation it found: no looping, restart at
  frame 0, and the completion callback installed.\<close>

definition restartAnimation :: "EntityId \<Rightarrow> string \<Rightarrow> bool \<Rightarrow> RenderSystem \<Rightarrow> RenderSystem" where
  "restartAnimation ident name onFinish rs =
     (case rs_components rs ident of
        Some (SPRITE c) \<Rightarrow>
          (case spr_animatedSprites c name of
             None \<Rightarrow> rs
           | Some anim \<Rightarrow>
               rs\<lparr>rs_components := (rs_components rs)(ident \<mapsto>
                  SPRITE (c\<lparr>spr_animatedSprites := (spr_animatedSprites c)(name \<mapsto>
                     anim\<lparr>anim_loop := False, anim_playing := True, anim_currentFrame := 0,
                          anim_onComplete := Some onFinish\<rparr>)\<rparr>))\<rparr>)
      | _ \<Rightarrow> rs)"

definition playAnimation ::
    "RenderEnv \<Rightarrow> RenderSystem \<Rightarrow> EntityId \<Rightarrow> string \<Rightarrow> bool \<Rightarrow> GameError + (bool \<times> RenderSystem)" where
  "playAnimation env rs entityId name onFinish =
     (case getSpriteComponent rs entityId of
        Inl e \<Rightarrow> Inl e
      | Inr c \<Rightarrow>
          (case spr_animatedSprites c name of
             None \<Rightarrow>
               Inl (GameError (''Entity '' @ Number_toString entityId @ '' has no animation ''
                      @ [CHR 0x27] @ name @ [CHR 0x27]))
           | Some anim \<Rightarrow>
               (case spriteCompSetActiveSprite env entityId c name True rs of
                  Inl e \<Rightarrow> Inl e
                | Inr rs1 \<Rightarrow> Inr (True, restartAnimation entityId name onFinish rs1))))"

definition example_animation :: Animation where
  "example_animation =
     \<lparr>anim_loop = True, anim_playing = False, anim_currentFrame = 3,
      anim_endFrame = Some ''man_idle'', anim_setEndFrameFnHandle = - 1,
      anim_onComplete = None\<rparr>"

definition example_sprite :: CSprite where
  "example_sprite =
     \<lparr>spr_animatedSprites = [''dig'' \<mapsto> example_animation],
      spr_staticSprites = [''man_idle''],
      spr_currentSprite = Some (StaticSprite ''man_idle''),
      spr_activeAnimation = None\<rparr>"

definition example_render :: RenderSystem where
  "example_render =
     \<lparr>rs_components =
        [11 \<mapsto> SPRITE example_sprite,
         12 \<mapsto> SHAPE],
      rs_scheduled = []\<rparr>"

definition example_render_env :: RenderEnv where
  "example_render_env = \<lparr>updateComponentPosition = (\<lambda>ident rs. Inr rs)\<rparr>"

section \<open>Facts about AgentSystem\<close>

lemma digit_char_is_digit: "d < 10 \<Longrightarrow> digit_char d \<in> set ''0123456789''"
  unfolding digit_char_def by (rule nth_mem) simp

lemma Number_toString_digits: "set (Number_toString n) \<subseteq> set ''0123456789''"
proof (induction n rule: Number_toString.induct)
  case (1 n)
  show ?case
  proof (cases "n < 10")
    case True
    then show ?thesis
      using digit_char_is_digit [of n] by (subst Number_toString.simps) simp
  next
    case False
    have "digit_char (n mod 10) \<in> set ''0123456789''"
      by (rule digit_char_is_digit) simp
    with False 1 show ?thesis
      by (subst Number_toString.simps) simp
  qed
qed

lemma Number_toString_no_property: "Number_toString n \<notin> set Map_property_names"
proof
  assume a: "Number_toString n \<in> set Map_property_names"
  have "\<forall>p \<in> set Map_property_names. \<exists>c \<in> set p. c \<notin> set ''0123456789''"
    unfolding Map_property_names_def by simp
  with a obtain c where "c \<in> set (Number_toString n)" "c \<notin> set ''0123456789''"
    by blast
  with Number_toString_digits [of n] show False by blast
qed

text \<open>
  Claim C10. A component stored with \<^verbatim>\<open>addComponent\<close> and still in the table is
  returned by \<^verbatim>\<open>getComponent\<close> without error, while \<^verbatim>\<open>hasComponent\<close> answers
  false for its id (and in fact for every id): the two public methods disagree.
\<close>

theorem hasComponent_disagrees_with_getComponent:
  "AgentSystem_hasComponent (AgentSystem_addComponent c s) (ac_entityId c) = False
   \<and> AgentSystem_getComponent (AgentSystem_addComponent c s) (ac_entityId c) = Inr c
   \<and> (as_components s i = Some c' \<longrightarrow>
        AgentSystem_hasComponent s i = False \<and> AgentSystem_getComponent s i = Inr c')"
  by (simp add: AgentSystem_hasComponent_def in_Map_def Number_toString_no_property
      AgentSystem_getComponent_def AgentSystem_addComponent_def)

theorem hasComponent_disagrees_with_getComponent_witness:
  "as_components example_agents 12 = Some (example_agent 12)
   \<and> AgentSystem_hasComponent example_agents 12 = False
   \<and> AgentSystem_getComponent example_agents 12 = Inr (example_agent 12)"
proof -
  have stored: "as_components example_agents 12 = Some (example_agent 12)"
    by (simp add: example_agents_def AgentSystem_addComponent_def example_agent_def)
  from hasComponent_disagrees_with_getComponent
    [of "example_agent 7" example_agents 12 "example_agent 12"] stored
  show ?thesis by blast
qed

section \<open>Evaluating the small world\<close>

lemma contact_at_simps:
  "contact_id (contact_at k px py) = k"
  "contact_vertex (contact_at k px py) = \<lparr>vec_x = px, vec_y = py\<rparr>"
  by (simp_all add: contact_at_def)

lemma example_world_simps:
  "world_bodies example_world = [23, 21, 22]"
  "heap_bodies example_world 21 = example_box"
  "heap_bodies example_world 22 = box_at 32 0 32 32"
  "heap_bodies example_world 23 = box_at 0 32 160 16"
  "componentsByEntityId example_world 5 = Some (example_component 5 21)"
  "componentsByBodyId example_world 21 = Some (example_component 5 21)"
  "componentsByBodyId example_world 22 = Some (example_component 6 22)"
  "componentsByBodyId example_world 23 = None"
  "grounded example_world = Map.empty"
  "collisions example_world = Map.empty"
  "posted example_world = []"
  by (simp_all add: example_world_def)

lemma example_pair_simps:
  "pair_id example_pair = ''A21B22''" "pair_bodyA example_pair = 21" "pair_bodyB example_pair = 22"
  "pair_contacts example_pair = [contact_at ''21_2'' 32 30]"
  "pair_activeContacts example_pair = [contact_at ''21_2'' 32 30]"
  "pair_id example_floor_pair = ''A21B23''" "pair_bodyA example_floor_pair = 21"
  "pair_bodyB example_floor_pair = 23"
  "pair_activeContacts example_floor_pair = [contact_at ''21_3'' 16 32]"
  "pair_contacts example_floor_pair = [contact_at ''21_3'' 16 32, contact_at ''21_2'' 0 32]"
  by (simp_all add: example_pair_def example_floor_pair_def)

lemma example_ground_contacts:
  "isGroundContact example_box (contact_at ''21_3'' 16 32)"
  "\<not> isGroundContact example_box (contact_at ''21_2'' 32 30)"
  "\<not> isGroundContact (box_at 32 0 32 32) (contact_at ''21_2'' 32 30)"
  "\<not> isGroundContact (box_at 0 32 160 16) (contact_at ''21_3'' 16 32)"
  by (simp_all add: isGroundContact_def isInside_def example_box_def box_at_def contact_at_def Let_def)

lemma example_env_simps:
  "BLOCK_SZ_WLD example_env = 64"
  "directionToVector example_env = example_directionToVector"
  "gravRegion_contains example_env gx gy = (0 \<le> gx \<and> gx \<le> 4 \<and> - 2 \<le> gy \<and> gy \<le> 4)"
  "attemptModeTransitionFn example_env e x y d s
     = (True, s\<lparr>componentsByEntityId := (componentsByEntityId s)(e := None)\<rparr>)"
  by (simp_all add: example_env_def)

section \<open>Facts about ground contacts\<close>

text \<open>
  Claim C5. The contact test is exact for a hot spot of half the width of the bounding box and
  8 units high that is horizontally centred and vertically centred on the bottom edge: it
  reaches from 4 units above the edge to 4 units below it, rather than lying inside the box
  flush with the edge.
\<close>

theorem isGroundContact_straddles_bottom_edge:
  "isGroundContact body contact
     = (contact_point contact \<in> straddling_hot_spot (body_bounds body))"
  by (auto simp: isGroundContact_def isInside_def contact_point_def straddling_hot_spot_def Let_def
      field_simps)

text \<open>A contact 2 units below the bottom edge grounds the box although it is outside the
  flush hot spot, and a contact 6 units above the edge, inside the flush hot spot, does
  not.\<close>

theorem isGroundContact_not_flush:
  "isGroundContact example_box (contact_at ''c'' 16 34)
   \<and> contact_point (contact_at ''c'' 16 34) \<notin> flush_hot_spot (body_bounds example_box)
   \<and> \<not> isGroundContact example_box (contact_at ''c'' 16 26)
   \<and> contact_point (contact_at ''c'' 16 26) \<in> flush_hot_spot (body_bounds example_box)"
  by (simp add: isGroundContact_def isInside_def contact_point_def flush_hot_spot_def Let_def
      example_box_def box_at_def contact_at_def)

theorem isGroundContact_straddles_witness:
  "isGroundContact example_box (contact_at ''c'' 16 36)
   \<and> contact_point (contact_at ''c'' 16 36) \<in> straddling_hot_spot (body_bounds example_box)"
proof -
  have "isGroundContact example_box (contact_at ''c'' 16 36)"
    by (simp add: isGroundContact_def isInside_def example_box_def box_at_def contact_at_def Let_def)
  with isGroundContact_straddles_bottom_edge [of example_box "contact_at ''c'' 16 36"]
  show ?thesis by simp
qed

section \<open>Facts about the collision handlers\<close>

lemma setGrounded_frame [simp]:
  "collisions (setGrounded a c s) = collisions s"
  "posted (setGrounded a c s) = posted s"
  "heap_bodies (setGrounded a c s) = heap_bodies s"
  "componentsByBodyId (setGrounded a c s) = componentsByBodyId s"
  by (simp_all add: setGrounded_def split: option.splits)

lemma clearGrounded_frame [simp]:
  "collisions (clearGrounded a c s) = collisions s"
  "posted (clearGrounded a c s) = posted s"
  "heap_bodies (clearGrounded a c s) = heap_bodies s"
  "componentsByBodyId (clearGrounded a c s) = componentsByBodyId s"
  by (simp_all add: clearGrounded_def split: option.splits)

lemma activeContact_frame [simp]:
  "collisions (activeContact a b c s) = collisions s"
  "posted (activeContact a b c s) = posted s"
  "heap_bodies (activeContact a b c s) = heap_bodies s"
  "componentsByBodyId (activeContact a b c s) = componentsByBodyId s"
  by (simp_all add: activeContact_def)

lemma endContact_frame [simp]:
  "collisions (endContact a b c s) = collisions s"
  "posted (endContact a b c s) = posted s"
  "heap_bodies (endContact a b c s) = heap_bodies s"
  "componentsByBodyId (endContact a b c s) = componentsByBodyId s"
  by (simp_all add: endContact_def)

lemma fold_activeContact_frame [simp]:
  "collisions (fold (activeContact a b) cs s) = collisions s"
  "posted (fold (activeContact a b) cs s) = posted s"
  "heap_bodies (fold (activeContact a b) cs s) = heap_bodies s"
  "componentsByBodyId (fold (activeContact a b) cs s) = componentsByBodyId s"
  by (induction cs arbitrary: s; simp)+

lemma fold_endContact_frame [simp]:
  "collisions (fold (endContact a b) cs s) = collisions s"
  "posted (fold (endContact a b) cs s) = posted s"
  "heap_bodies (fold (endContact a b) cs s) = heap_bodies s"
  "componentsByBodyId (fold (endContact a b) cs s) = componentsByBodyId s"
  by (induction cs arbitrary: s; simp)+

lemma collisionActive_pair_table:
  "componentsByBodyId (collisionActive_pair p s) = componentsByBodyId s"
  "heap_bodies (collisionActive_pair p s) = heap_bodies s"
  by (simp_all add: collisionActive_pair_def Let_def postEvent_def split: option.splits)

lemma collisionEnd_pair_table:
  "componentsByBodyId (collisionEnd_pair p s) = componentsByBodyId s"
  "heap_bodies (collisionEnd_pair p s) = heap_bodies s"
  "posted (collisionEnd_pair p s) = posted s"
  by (simp_all add: collisionEnd_pair_def Let_def)

lemma collisionActive_pair_collisions:
  "dom (collisions (collisionActive_pair p s)) = insert (pair_id p) (dom (collisions s))"
  by (auto simp: collisionActive_pair_def Let_def postEvent_def split: option.splits if_splits)

lemma collisionEnd_pair_collisions:
  "collisions (collisionEnd_pair p s) = (collisions s)(pair_id p := None)"
  by (auto simp: collisionEnd_pair_def Let_def)

lemma fold_activeContact_grounded:
  "grounded (fold (activeContact a b) cs s) e
     = (let gs = filter (\<lambda>c. grounds_entity s a e c \<or> grounds_entity s b e c) cs
        in if gs = [] then grounded s e else Some (contact_id (last gs)))"
proof (induction cs arbitrary: s)
  case Nil
  show ?case by simp
next
  case (Cons c cs)
  let ?s = "activeContact a b c s"
  have same: "grounds_entity ?s a e = grounds_entity s a e" "grounds_entity ?s b e = grounds_entity s b e"
    by (simp_all add: grounds_entity_def fun_eq_iff split: option.splits)
  have step: "grounded ?s e
      = (if grounds_entity s a e c \<or> grounds_entity s b e c then Some (contact_id c) else grounded s e)"
    by (auto simp: activeContact_def setGrounded_def grounds_entity_def split: option.splits)
  show ?case
    using Cons.IH [of ?s] by (simp add: same step Let_def)
qed

lemma collisionActive_pair_grounded:
  "grounded (collisionActive_pair p s) e
     = (if ground_contacts_of s p e = [] then grounded s e
        else Some (contact_id (last (ground_contacts_of s p e))))"
proof -
  define s1 where "s1 = (if collisions s (pair_id p) = None
                then (let s' = s\<lparr>collisions := (collisions s)(pair_id p \<mapsto> p)\<rparr>
                      in case componentsByBodyId s (pair_bodyA p) of
                           None \<Rightarrow> s'
                         | Some ca \<Rightarrow>
                             (case componentsByBodyId s (pair_bodyB p) of
                                None \<Rightarrow> s'
                              | Some cb \<Rightarrow>
                                  postEvent
                                    (ENTITY_COLLISION [fm_entityId ca, fm_entityId cb]
                                       (fm_entityId ca) (fm_entityId cb)) s'))
                else s)"
  have frame: "grounded s1 = grounded s" "heap_bodies s1 = heap_bodies s"
    by (simp_all add: s1_def Let_def postEvent_def split: option.splits)
  have same: "grounds_entity s1 a e = grounds_entity s a e" for a
    by (simp add: grounds_entity_def frame fun_eq_iff split: option.splits)
  have "collisionActive_pair p s
      = fold (activeContact (componentsByBodyId s (pair_bodyA p)) (componentsByBodyId s (pair_bodyB p)))
          (pair_activeContacts p) s1"
    by (simp add: collisionActive_pair_def s1_def Let_def)
  then show ?thesis
    by (simp add: fold_activeContact_grounded same frame ground_contacts_of_def Let_def)
qed

lemma fold_endContact_grounded:
  "grounded (fold (endContact a b) cs s) e
     = (if (is_entity_of a e \<or> is_entity_of b e)
           \<and> (\<exists>k \<in> contact_id ` set cs. grounded s e = Some k)
        then None else grounded s e)"
proof (induction cs arbitrary: s)
  case Nil
  show ?case by simp
next
  case (Cons c cs)
  let ?s = "endContact a b c s"
  have step: "grounded ?s e
      = (if (is_entity_of a e \<or> is_entity_of b e) \<and> grounded s e = Some (contact_id c)
         then None else grounded s e)"
    by (auto simp: endContact_def clearGrounded_def is_entity_of_def split: option.splits)
  show ?case
    using Cons.IH [of ?s] by (auto simp: step)
qed

lemma collisionEnd_pair_grounded:
  "grounded (collisionEnd_pair p s) e
     = (if pair_concerns s p e \<and> (\<exists>k \<in> contact_id ` set (pair_contacts p). grounded s e = Some k)
        then None else grounded s e)"
proof -
  define s1 where "s1 = (if collisions s (pair_id p) \<noteq> None
                then s\<lparr>collisions := (collisions s)(pair_id p := None)\<rparr>
                else s)"
  have frame: "grounded s1 = grounded s"
    by (simp add: s1_def)
  have "collisionEnd_pair p s
      = fold (endContact (componentsByBodyId s (pair_bodyA p)) (componentsByBodyId s (pair_bodyB p)))
          (pair_contacts p) s1"
    by (simp add: collisionEnd_pair_def s1_def Let_def)
  then show ?thesis
    by (simp only: fold_endContact_grounded frame pair_concerns_def)
qed

lemma example_grounded_world_simps:
  "grounded example_grounded_world 5 = Some ''21_3''"
  "componentsByBodyId example_grounded_world = componentsByBodyId example_world"
  "componentsByEntityId example_grounded_world 5 = Some (example_component 5 21)"
  "heap_bodies example_grounded_world = heap_bodies example_world"
  by (simp_all add: example_grounded_world_def collisionActive_def collisionActive_pair_def Let_def
      example_world_simps example_pair_simps activeContact_def setGrounded_def postEvent_def
      example_ground_contacts example_component_def contact_at_simps)

lemma collisionActive_pair_posted:
  "posted (collisionActive_pair p s)
     = posted s @ (if pair_id p \<in> dom (collisions s) then []
                   else collision_event (componentsByBodyId s) p)"
  by (auto simp: collisionActive_pair_def Let_def postEvent_def collision_event_def
      split: option.splits)

lemma collisionActive_posted:
  "posted (collisionActive ps s)
     = posted s @ concat (map (collision_event (componentsByBodyId s))
                            (new_reports (dom (collisions s)) ps))"
  unfolding collisionActive_def
proof (induction ps arbitrary: s)
  case Nil
  show ?case by simp
next
  case (Cons q qs)
  let ?s = "collisionActive_pair q s"
  have tbl: "componentsByBodyId ?s = componentsByBodyId s"
    by (rule collisionActive_pair_table)
  have d: "dom (collisions ?s) = insert (pair_id q) (dom (collisions s))"
    by (rule collisionActive_pair_collisions)
  show ?case
  proof (cases "pair_id q \<in> dom (collisions s)")
    case True
    then have "insert (pair_id q) (dom (collisions s)) = dom (collisions s)" by blast
    with True show ?thesis
      using Cons.IH [of ?s] by (simp add: tbl d collisionActive_pair_posted)
  next
    case False
    then show ?thesis
      using Cons.IH [of ?s] by (simp add: tbl d collisionActive_pair_posted)
  qed
qed

lemma collisionActive_collisions:
  "dom (collisions (collisionActive ps s)) = dom (collisions s) \<union> pair_id ` set ps"
  unfolding collisionActive_def
  by (induction ps arbitrary: s) (auto simp: collisionActive_pair_collisions)

lemma collisionActive_table:
  "componentsByBodyId (collisionActive ps s) = componentsByBodyId s"
  "heap_bodies (collisionActive ps s) = heap_bodies s"
  unfolding collisionActive_def
  by (induction ps arbitrary: s; simp add: collisionActive_pair_table)+

lemma collisionEnd_collisions:
  "dom (collisions (collisionEnd ps s)) = dom (collisions s) - pair_id ` set ps"
  unfolding collisionEnd_def
  by (induction ps arbitrary: s) (auto simp: collisionEnd_pair_collisions)

lemma collisionEnd_table:
  "componentsByBodyId (collisionEnd ps s) = componentsByBodyId s"
  "heap_bodies (collisionEnd ps s) = heap_bodies s"
  "posted (collisionEnd ps s) = posted s"
  unfolding collisionEnd_def
  by (induction ps arbitrary: s; simp add: collisionEnd_pair_table)+

lemma handleEngineEvent_collisions:
  "dom (collisions (handleEngineEvent ev s)) = track_active ev (dom (collisions s))"
  by (cases ev) (simp_all add: collisionActive_collisions collisionEnd_collisions)

lemma handleEngineEvent_table:
  "componentsByBodyId (handleEngineEvent ev s) = componentsByBodyId s"
  by (cases ev) (simp_all add: collisionActive_table collisionEnd_table)

lemma handleEngineEvents_collisions:
  "dom (collisions (handleEngineEvents evs s)) = fold track_active evs (dom (collisions s))"
  unfolding handleEngineEvents_def
  by (induction evs arbitrary: s) (simp_all add: handleEngineEvent_collisions)

lemma handleEngineEvents_table:
  "componentsByBodyId (handleEngineEvents evs s) = componentsByBodyId s"
  unfolding handleEngineEvents_def
  by (induction evs arbitrary: s) (simp_all add: handleEngineEvent_table)

lemma new_reports_distinct:
  "distinct (map pair_id ps) \<Longrightarrow> new_reports K ps = filter (\<lambda>q. pair_id q \<notin> K) ps"
proof (induction ps arbitrary: K)
  case Nil
  show ?case by simp
next
  case (Cons q qs)
  from Cons.prems have nq: "pair_id q \<notin> pair_id ` set qs" and dq: "distinct (map pair_id qs)"
    by simp_all
  from nq have "filter (\<lambda>r. pair_id r \<notin> insert (pair_id q) K) qs = filter (\<lambda>r. pair_id r \<notin> K) qs"
    by (intro filter_cong) (auto simp: image_iff)
  with Cons.IH [OF dq] show ?case by simp
qed

lemma ground_contacts_of_cong:
  assumes h: "heap_bodies s' = heap_bodies s" and t: "componentsByBodyId s' = componentsByBodyId s"
  shows "ground_contacts_of s' p e = ground_contacts_of s p e"
  unfolding ground_contacts_of_def grounds_entity_def h t by (rule refl)

lemma pair_concerns_cong:
  assumes t: "componentsByBodyId s' = componentsByBodyId s"
  shows "pair_concerns s' p e = pair_concerns s p e"
  unfolding pair_concerns_def t by (rule refl)

lemma collisionActive_grounded:
  "grounded (collisionActive ps s) e
     = (if concat (map (\<lambda>p. ground_contacts_of s p e) ps) = [] then grounded s e
        else Some (contact_id (last (concat (map (\<lambda>p. ground_contacts_of s p e) ps)))))"
  unfolding collisionActive_def
proof (induction ps arbitrary: s)
  case Nil
  show ?case by simp
next
  case (Cons q qs)
  let ?s = "collisionActive_pair q s"
  have same: "ground_contacts_of ?s p e = ground_contacts_of s p e" for p
    by (rule ground_contacts_of_cong) (simp_all add: collisionActive_pair_table)
  show ?case
    using Cons.IH [of ?s] by (simp add: same collisionActive_pair_grounded)
qed

lemma collisionEnd_grounded:
  "grounded (collisionEnd ps s) e
     = (if \<exists>p \<in> set ps. pair_concerns s p e
              \<and> (\<exists>k \<in> contact_id ` set (pair_contacts p). grounded s e = Some k)
        then None else grounded s e)"
  unfolding collisionEnd_def
proof (induction ps arbitrary: s)
  case Nil
  show ?case by simp
next
  case (Cons q qs)
  let ?s = "collisionEnd_pair q s"
  have same: "pair_concerns ?s p e = pair_concerns s p e" for p
    by (rule pair_concerns_cong) (simp add: collisionEnd_pair_table)
  show ?case
    using Cons.IH [of ?s] by (auto simp: same collisionEnd_pair_grounded)
qed

lemma removeComponent_grounded:
  "grounded (FreeModeImpl_removeComponent c s) e
     = (if e = fm_entityId c then None else grounded s e)"
  by (simp add: FreeModeImpl_removeComponent_def)

text \<open>
  Claim C3. After any history of engine notifications, a collisionActive report posts one
  ENTITY_COLLISION event for each of its pairs that becomes active with it (its id is not
  among the ids reported active and not ended since) and has both bodies in the body-id
  table, and nothing for its other pairs; the collision table holds exactly the ids
  reported active and not ended since; a collisionEnd report removes the ids of its pairs
  and posts nothing, so that the next collisionActive report of such a pair posts again. A
  collisionStart report is not heard: the event is posted with the first collisionActive
  report of the pair, not when the engine first reports the contact.
\<close>

theorem collision_event_at_first_active_report:
  "posted (collisionActive ps (handleEngineEvents evs s))
     = posted (handleEngineEvents evs s)
       @ concat (map (collision_event (componentsByBodyId s))
                   (new_reports (fold track_active evs (dom (collisions s))) ps))
   \<and> dom (collisions (handleEngineEvents evs s)) = fold track_active evs (dom (collisions s))
   \<and> dom (collisions (collisionActive ps s)) = dom (collisions s) \<union> pair_id ` set ps
   \<and> dom (collisions (collisionEnd ps s)) = dom (collisions s) - pair_id ` set ps
   \<and> posted (collisionEnd ps s) = posted s
   \<and> handleEngineEvent (CollisionStart ps) s = s
   \<and> (distinct (map pair_id ps) \<longrightarrow> new_reports K ps = filter (\<lambda>q. pair_id q \<notin> K) ps)
   \<and> (componentsByBodyId s (pair_bodyA p) = Some a \<and> componentsByBodyId s (pair_bodyB p) = Some b
        \<longrightarrow> collision_event (componentsByBodyId s) p
            = [ENTITY_COLLISION [fm_entityId a, fm_entityId b] (fm_entityId a) (fm_entityId b)])
   \<and> (componentsByBodyId s (pair_bodyA p) = None \<or> componentsByBodyId s (pair_bodyB p) = None
        \<longrightarrow> collision_event (componentsByBodyId s) p = [])"
proof -
  have "posted (collisionActive ps (handleEngineEvents evs s))
     = posted (handleEngineEvents evs s)
       @ concat (map (collision_event (componentsByBodyId s))
                   (new_reports (fold track_active evs (dom (collisions s))) ps))"
    by (simp add: collisionActive_posted handleEngineEvents_table handleEngineEvents_collisions)
  moreover have "collision_event (componentsByBodyId s) p = []"
    if "componentsByBodyId s (pair_bodyA p) = None \<or> componentsByBodyId s (pair_bodyB p) = None"
    using that by (auto simp: collision_event_def split: option.splits)
  ultimately show ?thesis
    by (simp add: handleEngineEvents_collisions collisionActive_collisions collisionEnd_collisions
        collisionEnd_table new_reports_distinct collision_event_def)
qed

text \<open>A pair of two tracked bodies that the engine reports as started and then as ended,
  with no collisionActive report in between, posts no event at all.\<close>

theorem collision_start_then_end_posts_nothing:
  "componentsByBodyId example_world (pair_bodyA example_pair) = Some (example_component 5 21)
   \<and> componentsByBodyId example_world (pair_bodyB example_pair) = Some (example_component 6 22)
   \<and> posted (handleEngineEvents [CollisionStart [example_pair]] example_world) = []
   \<and> posted (handleEngineEvents [CollisionStart [example_pair], CollisionEnd [example_pair]]
        example_world) = []"
  by (simp add: handleEngineEvents_def collisionEnd_table example_world_simps example_pair_simps)

theorem collision_event_at_first_active_report_witness:
  "posted (collisionActive [example_floor_pair, example_pair]
      (handleEngineEvents [CollisionStart [example_pair]] example_world))
     = [ENTITY_COLLISION [5, 6] 5 6]
   \<and> posted (collisionActive [example_floor_pair, example_pair]
        (handleEngineEvents [CollisionActive [example_floor_pair, example_pair]] example_world))
       = [ENTITY_COLLISION [5, 6] 5 6]
   \<and> posted (collisionActive [example_floor_pair, example_pair]
        (handleEngineEvents
           [CollisionActive [example_floor_pair, example_pair], CollisionEnd [example_pair]]
           example_world))
       = [ENTITY_COLLISION [5, 6] 5 6, ENTITY_COLLISION [5, 6] 5 6]"
proof -
  let ?ps = "[example_floor_pair, example_pair]"
  let ?w = example_world
  note c = collision_event_at_first_active_report
  have d: "distinct (map pair_id ?ps)"
    by (simp add: example_pair_simps)
  have a: "componentsByBodyId ?w (pair_bodyA example_pair) = Some (example_component 5 21)
      \<and> componentsByBodyId ?w (pair_bodyB example_pair) = Some (example_component 6 22)"
    by (simp add: example_world_simps example_pair_simps)
  have f: "componentsByBodyId ?w (pair_bodyA example_floor_pair) = None
      \<or> componentsByBodyId ?w (pair_bodyB example_floor_pair) = None"
    by (simp add: example_world_simps example_pair_simps)
  have e1: "collision_event (componentsByBodyId ?w) example_pair = [ENTITY_COLLISION [5, 6] 5 6]"
    using c [where s = ?w and p = example_pair and a = "example_component 5 21"
        and b = "example_component 6 22"] a
    by (simp add: example_component_def del: new_reports.simps)
  have e2: "collision_event (componentsByBodyId ?w) example_floor_pair = []"
    using c [where s = ?w and p = example_floor_pair] f by blast
  have n: "new_reports K ?ps = filter (\<lambda>q. pair_id q \<notin> K) ?ps" for K
    using c [where ps = ?ps and K = K] d by blast
  have k0: "dom (collisions ?w) = {}"
    by (simp add: example_world_simps)
  have first: "posted (collisionActive ?ps ?w) = [ENTITY_COLLISION [5, 6] 5 6]"
    using c [where ps = ?ps and evs = "[]" and s = ?w, THEN conjunct1]
    by (simp add: handleEngineEvents_def k0 n e1 e2 example_world_simps example_pair_simps
        del: new_reports.simps)
  have ended: "posted (collisionEnd [example_pair] (collisionActive ?ps ?w))
      = posted (collisionActive ?ps ?w)"
    using c [where ps = "[example_pair]" and s = "collisionActive ?ps ?w"] by blast
  have h1: "posted (handleEngineEvents [CollisionStart [example_pair]] ?w) = []"
    by (simp add: handleEngineEvents_def example_world_simps)
  have h2: "posted (handleEngineEvents [CollisionActive ?ps] ?w) = [ENTITY_COLLISION [5, 6] 5 6]"
    using first by (simp add: handleEngineEvents_def)
  have h3: "posted (handleEngineEvents [CollisionActive ?ps, CollisionEnd [example_pair]] ?w)
      = [ENTITY_COLLISION [5, 6] 5 6]"
    using first ended by (simp add: handleEngineEvents_def)
  show ?thesis
    using c [where ps = ?ps and evs = "[CollisionStart [example_pair]]" and s = ?w, THEN conjunct1]
      c [where ps = ?ps and evs = "[CollisionActive ?ps]" and s = ?w, THEN conjunct1]
      c [where ps = ?ps and evs = "[CollisionActive ?ps, CollisionEnd [example_pair]]" and s = ?w,
        THEN conjunct1]
    by (simp add: h1 h2 h3 k0 n e1 e2 example_pair_simps del: new_reports.simps)
qed

text \<open>
  Claim C4. After a collisionActive report the grounded record of an entity is the id of the
  last active contact, over the pairs of the report in order, that is a ground contact for
  it, and is unchanged when there is none: a ground contact sets the record and a later one
  overwrites it. After a collisionEnd report the record is deleted exactly when one of the
  pairs concerns the entity and one of that pair's contacts has the stored id; the end of
  contacts with other ids leaves the record in place. Apart from the collision handlers,
  removeComponent deletes the record of the entity whose component it removes.
\<close>

theorem grounded_record_set_and_cleared:
  "grounded (collisionActive ps s) e
     = (if concat (map (\<lambda>p. ground_contacts_of s p e) ps) = [] then grounded s e
        else Some (contact_id (last (concat (map (\<lambda>p. ground_contacts_of s p e) ps)))))
   \<and> grounded (collisionEnd ps s) e
     = (if \<exists>p \<in> set ps. pair_concerns s p e
              \<and> (\<exists>k \<in> contact_id ` set (pair_contacts p). grounded s e = Some k)
        then None else grounded s e)
   \<and> (grounded s e = Some k \<and> (\<forall>p \<in> set ps. k \<notin> contact_id ` set (pair_contacts p)) \<longrightarrow>
        grounded (collisionEnd ps s) e = Some k)
   \<and> grounded (handleEngineEvent (CollisionStart ps) s) e = grounded s e
   \<and> grounded (FreeModeImpl_removeComponent c s) e
     = (if e = fm_entityId c then None else grounded s e)"
  by (auto simp: collisionActive_grounded collisionEnd_grounded removeComponent_grounded)

text \<open>Removing the component of a grounded entity deletes its record although no contact
  ended.\<close>

theorem removeComponent_clears_grounded_record:
  "grounded example_grounded_world 5 = Some ''21_3''
   \<and> grounded (FreeModeImpl_removeComponent (example_component 5 21) example_grounded_world) 5
       = None"
  by (simp add: example_grounded_world_simps FreeModeImpl_removeComponent_def example_component_def)

theorem grounded_record_set_and_cleared_witness:
  "grounded (collisionActive [example_pair, example_floor_pair] example_world) 5 = Some ''21_3''
   \<and> grounded (collisionEnd [example_pair] example_grounded_world) 5 = Some ''21_3''
   \<and> grounded (collisionEnd [example_pair, example_floor_pair] example_grounded_world) 5 = None"
proof -
  note g = grounded_record_set_and_cleared
  have gc: "ground_contacts_of example_world example_floor_pair 5 = [contact_at ''21_3'' 16 32]"
    "ground_contacts_of example_world example_pair 5 = []"
    by (simp_all add: ground_contacts_of_def grounds_entity_def example_world_simps example_pair_simps
        example_ground_contacts example_component_def)
  have other: "\<forall>p \<in> set [example_pair]. ''21_3'' \<notin> contact_id ` set (pair_contacts p)"
    by (simp add: example_pair_simps contact_at_simps)
  have hit: "\<exists>p \<in> set [example_pair, example_floor_pair].
      pair_concerns example_grounded_world p 5
      \<and> (\<exists>k \<in> contact_id ` set (pair_contacts p). grounded example_grounded_world 5 = Some k)"
    by (simp add: pair_concerns_def is_entity_of_def example_grounded_world_simps example_world_simps
        example_pair_simps example_component_def contact_at_simps)
  have a: "grounded (collisionActive [example_pair, example_floor_pair] example_world) 5 = Some ''21_3''"
    using g [where ps = "[example_pair, example_floor_pair]" and s = example_world and e = 5,
        THEN conjunct1]
    by (simp add: gc contact_at_simps)
  have b: "grounded (collisionEnd [example_pair] example_grounded_world) 5 = Some ''21_3''"
    using g [where ps = "[example_pair]" and s = example_grounded_world and e = 5
        and k = "''21_3''"] other example_grounded_world_simps(1)
    by blast
  have c: "grounded (collisionEnd [example_pair, example_floor_pair] example_grounded_world) 5 = None"
    using g [where ps = "[example_pair, example_floor_pair]" and s = example_grounded_world and e = 5,
        THEN conjunct2, THEN conjunct1] hit
    by (simp only: if_True)
  from a b c show ?thesis by simp
qed

section \<open>Facts about movement\<close>

lemma tryLeaveGravRegion_probe:
  "tryLeaveGravRegion env c direction s =
     (case movement_probe env c direction s of
        (gx, gy) \<Rightarrow>
          if \<not> gravRegion_contains env gx gy
          then attemptModeTransitionFn env (fm_entityId c)
                 (of_int gx * BLOCK_SZ_WLD env) (of_int gy * BLOCK_SZ_WLD env) direction s
          else (False, s))"
proof -
  define B where "B = BLOCK_SZ_WLD env"
  define u where "u = directionToVector env direction"
  have x: "fm_x c s + 0.5 * B + (0.5 * vec_x (vecMult u B) + vec_x u * (B * 0.25))
             = fm_x c s + B / 2 + (B / 2 + B / 4) * vec_x u"
    by (simp add: vecMult_def algebra_simps)
  have y: "fm_y c s + 0.5 * B + (0.5 * vec_y (vecMult u B) + vec_y u * (B * 0.25))
             = fm_y c s + B / 2 + (B / 2 + B / 4) * vec_y u"
    by (simp add: vecMult_def algebra_simps)
  show ?thesis
    unfolding tryLeaveGravRegion_def movement_probe_def Let_def B_def [symmetric] u_def [symmetric]
      Vector.select_convs x y prod.case
    by (rule refl)
qed

lemma postMoveEvent_heap [simp]: "heap_bodies (postMoveEvent c d s) = heap_bodies s"
  by (simp add: postMoveEvent_def postEvent_def)

lemma example_getComponent:
  "FreeModeImpl_getComponent example_world 5 = Inr (example_component 5 21)"
  "FreeModeImpl_getComponent example_grounded_world 5 = Inr (example_component 5 21)"
  by (simp_all add: FreeModeImpl_getComponent_def example_world_simps example_grounded_world_simps)

lemma example_probe:
  "movement_probe example_env (example_component 5 21) LEFT example_world = (- 1, 0)"
  "movement_probe example_env (example_component 5 21) UP example_world = (0, - 1)"
  "movement_probe example_env (example_component 5 21) RIGHT example_world = (1, 0)"
  "movement_probe example_env (example_component 5 21) UP example_grounded_world = (0, - 1)"
  by (simp_all add: movement_probe_def example_env_def example_directionToVector_def fm_x_def fm_y_def
      example_component_def example_world_simps example_grounded_world_simps example_box_def box_at_def Let_def)

lemma example_tryLeave:
  "tryLeaveGravRegion example_env (example_component 5 21) UP example_world = (False, example_world)"
  "tryLeaveGravRegion example_env (example_component 5 21) RIGHT example_world = (False, example_world)"
  "tryLeaveGravRegion example_env (example_component 5 21) UP example_grounded_world
     = (False, example_grounded_world)"
  by (simp_all add: tryLeaveGravRegion_probe example_probe example_env_simps)

text \<open>
  Claim C1. When the movement probe of a free-mode entity (its centre plus half a block plus a
  quarter of a block in the movement direction, floored to grid coordinates) lies outside
  the gravity region, the call hands the untouched state to the mode-transition callback;
  if the callback reports a transition, the call returns true with the state the callback
  left, plus the movement event: no body of the store is written.
\<close>

theorem moveAgent_offers_transition_first:
  assumes "FreeModeImpl_getComponent s ident = Inr c"
      and "0 < BLOCK_SZ_WLD env"
      and "movement_probe env c direction s = (gx, gy)"
      and "\<not> gravRegion_contains env gx gy"
  shows "tryLeaveGravRegion env c direction s
           = attemptModeTransitionFn env (fm_entityId c)
               (of_int gx * BLOCK_SZ_WLD env) (of_int gy * BLOCK_SZ_WLD env) direction s
         \<and> (attemptModeTransitionFn env (fm_entityId c)
               (of_int gx * BLOCK_SZ_WLD env) (of_int gy * BLOCK_SZ_WLD env) direction s = (True, s')
             \<longrightarrow> moveAgent env ident direction s = Inr (True, postMoveEvent c direction s')
                 \<and> heap_bodies (postMoveEvent c direction s') = heap_bodies s')"
proof -
  have offered: "tryLeaveGravRegion env c direction s
           = attemptModeTransitionFn env (fm_entityId c)
               (of_int gx * BLOCK_SZ_WLD env) (of_int gy * BLOCK_SZ_WLD env) direction s"
    using assms(3,4) by (simp add: tryLeaveGravRegion_probe)
  show ?thesis
    using assms(1) by (simp add: offered moveAgent_def)
qed

theorem moveAgent_offers_transition_first_witness:
  "movement_probe example_env (example_component 5 21) LEFT example_world = (- 1, 0)
   \<and> \<not> gravRegion_contains example_env (- 1) 0
   \<and> moveAgent example_env 5 LEFT example_world
       = Inr (True, postMoveEvent (example_component 5 21) LEFT
           (example_world\<lparr>componentsByEntityId := (componentsByEntityId example_world)(5 := None)\<rparr>))
   \<and> body_velocity (heap_bodies (postMoveEvent (example_component 5 21) LEFT
           (example_world\<lparr>componentsByEntityId := (componentsByEntityId example_world)(5 := None)\<rparr>)) 21)
       = body_velocity (heap_bodies example_world 21)"
proof -
  have b: "0 < BLOCK_SZ_WLD example_env" by (simp add: example_env_simps)
  have out: "\<not> gravRegion_contains example_env (- 1) 0" by (simp add: example_env_simps)
  have fires: "attemptModeTransitionFn example_env (fm_entityId (example_component 5 21))
      (of_int (- 1) * BLOCK_SZ_WLD example_env) (of_int 0 * BLOCK_SZ_WLD example_env) LEFT example_world
      = (True, example_world\<lparr>componentsByEntityId := (componentsByEntityId example_world)(5 := None)\<rparr>)"
    by (simp add: example_env_simps example_component_def)
  from moveAgent_offers_transition_first
    [OF example_getComponent(1) b example_probe(1) out,
      of "example_world\<lparr>componentsByEntityId := (componentsByEntityId example_world)(5 := None)\<rparr>"]
    fires example_probe(1) out
  show ?thesis by simp
qed

text \<open>
  Claim C2. An UP call for which no mode transition fires returns false and leaves the state
  as it is when the grounded table has no entry for the entity, and returns true with the
  vertical velocity of the body set when it has one.
\<close>

theorem moveAgent_up_needs_ground:
  assumes "FreeModeImpl_getComponent s ident = Inr c"
      and "tryLeaveGravRegion env c UP s = (False, s1)"
      and "vec_y (directionToVector env UP) \<noteq> 0"
  shows "(grounded s1 (fm_entityId c) = None \<longrightarrow> moveAgent env ident UP s = Inr (False, s1))
         \<and> (grounded s1 (fm_entityId c) \<noteq> None \<longrightarrow>
              (\<exists>s2. moveAgent env ident UP s = Inr (True, s2)
                 \<and> vec_y (body_velocity (heap_bodies s2 (fm_body c)))
                     = vec_y (directionToVector env UP) * PLAYER_VELOCITY_V))"
  using assms
  by (simp add: moveAgent_def bodyGrounded_def Let_def Body_setVelocity_def PLAYER_VELOCITY_V_def)

theorem moveAgent_up_needs_ground_witness:
  "moveAgent example_env 5 UP example_world = Inr (False, example_world)
   \<and> (\<exists>s2. moveAgent example_env 5 UP example_grounded_world = Inr (True, s2)
         \<and> vec_y (body_velocity (heap_bodies s2 21)) = - 10)"
proof -
  have u: "vec_y (directionToVector example_env UP) \<noteq> 0"
    by (simp add: example_env_simps example_directionToVector_def)
  have g0: "grounded example_world (fm_entityId (example_component 5 21)) = None"
    by (simp add: example_world_simps)
  have g1: "grounded example_grounded_world (fm_entityId (example_component 5 21)) \<noteq> None"
    by (simp add: example_grounded_world_simps example_component_def)
  have v: "vec_y (directionToVector example_env UP) * PLAYER_VELOCITY_V = - 10"
    by (simp add: example_env_simps example_directionToVector_def PLAYER_VELOCITY_V_def)
  from moveAgent_up_needs_ground [OF example_getComponent(1) example_tryLeave(1) u]
    moveAgent_up_needs_ground [OF example_getComponent(2) example_tryLeave(3) u] g0 g1 v
  show ?thesis by (simp add: example_component_def)
qed

text \<open>
  Claim C7. With the directions as unit vectors along one axis, a LEFT or RIGHT call for which
  no transition fires sets the horizontal velocity to 6 or -6 and keeps the vertical one; an
  UP call of a grounded entity sets the vertical velocity to 10 or -10 and keeps the
  horizontal one; a DOWN call returns true and writes no body of the store.
\<close>

theorem moveAgent_sets_one_axis:
  assumes "FreeModeImpl_getComponent s ident = Inr c"
      and "tryLeaveGravRegion env c direction s = (left, s1)"
      and "axis_units (directionToVector env)"
  shows "(\<not> left \<and> (direction = LEFT \<or> direction = RIGHT) \<longrightarrow>
            (\<exists>s2. moveAgent env ident direction s = Inr (True, s2)
               \<and> vec_x (body_velocity (heap_bodies s2 (fm_body c)))
                   = vec_x (directionToVector env direction) * 6
               \<and> (vec_x (body_velocity (heap_bodies s2 (fm_body c))) = 6
                    \<or> vec_x (body_velocity (heap_bodies s2 (fm_body c))) = - 6)
               \<and> vec_y (body_velocity (heap_bodies s2 (fm_body c)))
                   = vec_y (body_velocity (heap_bodies s1 (fm_body c)))))
         \<and> (\<not> left \<and> direction = UP \<and> grounded s1 (fm_entityId c) \<noteq> None \<longrightarrow>
            (\<exists>s2. moveAgent env ident direction s = Inr (True, s2)
               \<and> vec_y (body_velocity (heap_bodies s2 (fm_body c)))
                   = vec_y (directionToVector env direction) * 10
               \<and> (vec_y (body_velocity (heap_bodies s2 (fm_body c))) = 10
                    \<or> vec_y (body_velocity (heap_bodies s2 (fm_body c))) = - 10)
               \<and> vec_x (body_velocity (heap_bodies s2 (fm_body c)))
                   = vec_x (body_velocity (heap_bodies s1 (fm_body c)))))
         \<and> (direction = DOWN \<longrightarrow>
            (\<exists>s2. moveAgent env ident direction s = Inr (True, s2)
               \<and> heap_bodies s2 = heap_bodies s1))"
proof (intro conjI impI)
  assume h: "\<not> left \<and> (direction = LEFT \<or> direction = RIGHT)"
  with assms(3) have u: "vec_y (directionToVector env direction) = 0"
    "vec_x (directionToVector env direction) = 1 \<or> vec_x (directionToVector env direction) = - 1"
    by (auto simp: axis_units_def)
  from h have d: "direction \<noteq> UP" "direction \<noteq> DOWN" by auto
  from u(2) show "\<exists>s2. moveAgent env ident direction s = Inr (True, s2)
               \<and> vec_x (body_velocity (heap_bodies s2 (fm_body c)))
                   = vec_x (directionToVector env direction) * 6
               \<and> (vec_x (body_velocity (heap_bodies s2 (fm_body c))) = 6
                    \<or> vec_x (body_velocity (heap_bodies s2 (fm_body c))) = - 6)
               \<and> vec_y (body_velocity (heap_bodies s2 (fm_body c)))
                   = vec_y (body_velocity (heap_bodies s1 (fm_body c)))"
    using assms(1,2) h d u(1)
    by (auto simp: moveAgent_def Let_def Body_setVelocity_def PLAYER_VELOCITY_H_def
        PLAYER_VELOCITY_V_def)
next
  assume h: "\<not> left \<and> direction = UP \<and> grounded s1 (fm_entityId c) \<noteq> None"
  with assms(3) have u: "vec_x (directionToVector env direction) = 0"
    "vec_y (directionToVector env direction) = 1 \<or> vec_y (directionToVector env direction) = - 1"
    by (auto simp: axis_units_def)
  from u(2) show "\<exists>s2. moveAgent env ident direction s = Inr (True, s2)
               \<and> vec_y (body_velocity (heap_bodies s2 (fm_body c)))
                   = vec_y (directionToVector env direction) * 10
               \<and> (vec_y (body_velocity (heap_bodies s2 (fm_body c))) = 10
                    \<or> vec_y (body_velocity (heap_bodies s2 (fm_body c))) = - 10)
               \<and> vec_x (body_velocity (heap_bodies s2 (fm_body c)))
                   = vec_x (body_velocity (heap_bodies s1 (fm_body c)))"
    using assms(1,2) h u(1)
    by (auto simp: moveAgent_def Let_def Body_setVelocity_def PLAYER_VELOCITY_H_def
        PLAYER_VELOCITY_V_def bodyGrounded_def)
next
  assume "direction = DOWN"
  then show "\<exists>s2. moveAgent env ident direction s = Inr (True, s2) \<and> heap_bodies s2 = heap_bodies s1"
    using assms(1,2) by (cases left) (simp_all add: moveAgent_def)
qed

theorem moveAgent_sets_one_axis_witness:
  "\<exists>s2. moveAgent example_env 5 RIGHT example_world = Inr (True, s2)
      \<and> vec_x (body_velocity (heap_bodies s2 21)) = 6
      \<and> vec_y (body_velocity (heap_bodies s2 21)) = 2"
proof -
  have ax: "axis_units (directionToVector example_env)"
    by (simp add: axis_units_def example_env_simps example_directionToVector_def)
  have v: "vec_x (directionToVector example_env RIGHT) * 6 = 6"
    "vec_y (body_velocity (heap_bodies example_world 21)) = 2"
    by (simp_all add: example_env_simps example_directionToVector_def example_world_simps
        example_box_def box_at_def)
  from moveAgent_sets_one_axis [OF example_getComponent(1) example_tryLeave(2) ax] v
  show ?thesis by (auto simp: example_component_def)
qed

section \<open>Facts about the region query\<close>

lemma overlaps_iff_meet:
  assumes "Bounds_wf b" and "0 \<le> r"
  shows "Bounds_overlaps b \<lparr>bounds_min = \<lparr>vec_x = x - r, vec_y = y - r\<rparr>,
                            bounds_max = \<lparr>vec_x = x + r, vec_y = y + r\<rparr>\<rparr>
         = (Bounds_points b \<inter> square_points x y r \<noteq> {})"
proof
  assume ov: "Bounds_overlaps b \<lparr>bounds_min = \<lparr>vec_x = x - r, vec_y = y - r\<rparr>,
                            bounds_max = \<lparr>vec_x = x + r, vec_y = y + r\<rparr>\<rparr>"
  let ?px = "max (vec_x (bounds_min b)) (x - r)"
  let ?py = "max (vec_y (bounds_min b)) (y - r)"
  from ov assms have "(?px, ?py) \<in> Bounds_points b \<inter> square_points x y r"
    by (simp add: Bounds_overlaps_def Bounds_points_def square_points_def Bounds_wf_def)
  then show "Bounds_points b \<inter> square_points x y r \<noteq> {}" by blast
next
  assume "Bounds_points b \<inter> square_points x y r \<noteq> {}"
  then obtain px py where "(px, py) \<in> Bounds_points b" "(px, py) \<in> square_points x y r"
    by auto
  then show "Bounds_overlaps b \<lparr>bounds_min = \<lparr>vec_x = x - r, vec_y = y - r\<rparr>,
                            bounds_max = \<lparr>vec_x = x + r, vec_y = y + r\<rparr>\<rparr>"
    by (simp add: Bounds_overlaps_def Bounds_points_def square_points_def)
qed

lemma Set_add_set: "set (Set_add v vs) = insert v (set vs)"
  by (auto simp: Set_add_def)

lemma Set_add_distinct: "distinct vs \<Longrightarrow> distinct (Set_add v vs)"
  by (simp add: Set_add_def)

lemma collect_entities_set:
  "set (fold (\<lambda>body entities. case tbl body of None \<Rightarrow> entities
                                | Some c \<Rightarrow> Set_add (fm_entityId c) entities) bs acc)
   = set acc \<union> {fm_entityId c | b c. b \<in> set bs \<and> tbl b = Some c}"
proof (induction bs arbitrary: acc)
  case Nil
  show ?case by simp
next
  case (Cons b bs)
  show ?case
  proof (cases "tbl b")
    case None
    then show ?thesis using Cons.IH [of acc] by auto
  next
    case (Some c)
    then show ?thesis using Cons.IH [of "Set_add (fm_entityId c) acc"]
      by (auto simp: Set_add_set)
  qed
qed

lemma collect_entities_distinct:
  "distinct acc \<Longrightarrow>
   distinct (fold (\<lambda>body entities. case tbl body of None \<Rightarrow> entities
                                | Some c \<Rightarrow> Set_add (fm_entityId c) entities) bs acc)"
  by (induction bs arbitrary: acc) (auto simp: Set_add_distinct split: option.splits)

text \<open>
  Claim C8. For a radius that is not negative and bodies with well-formed bounds, the result of
  entitiesWithinRadius holds, once each, exactly the entity ids of the components that the
  body-id table gives for a body of the world whose bounding region meets the square
  [x-r, x+r] x [y-r, y+r]; a body the table does not know contributes nothing.
\<close>

theorem entitiesWithinRadius_exact:
  assumes "0 \<le> r" and "\<forall>b \<in> set (world_bodies s). Bounds_wf (body_bounds (heap_bodies s b))"
  shows "set (entitiesWithinRadius s x y r)
           = {fm_entityId c | b c. b \<in> set (world_bodies s) \<and> componentsByBodyId s b = Some c
                \<and> Bounds_points (body_bounds (heap_bodies s b)) \<inter> square_points x y r \<noteq> {}}
         \<and> distinct (entitiesWithinRadius s x y r)"
proof -
  let ?sq = "\<lparr>bounds_min = \<lparr>vec_x = x - r, vec_y = y - r\<rparr>,
              bounds_max = \<lparr>vec_x = x + r, vec_y = y + r\<rparr>\<rparr>"
  have region: "set (Query_region (heap_bodies s) (world_bodies s) ?sq)
      = {b \<in> set (world_bodies s).
           Bounds_points (body_bounds (heap_bodies s b)) \<inter> square_points x y r \<noteq> {}}"
    using assms by (auto simp: Query_region_def overlaps_iff_meet)
  have "set (entitiesWithinRadius s x y r)
      = {fm_entityId c | b c. b \<in> set (Query_region (heap_bodies s) (world_bodies s) ?sq)
           \<and> componentsByBodyId s b = Some c}"
    unfolding entitiesWithinRadius_def Let_def by (simp add: collect_entities_set)
  also have "\<dots> = {fm_entityId c | b c. b \<in> set (world_bodies s) \<and> componentsByBodyId s b = Some c
                \<and> Bounds_points (body_bounds (heap_bodies s b)) \<inter> square_points x y r \<noteq> {}}"
    unfolding region by blast
  finally have a: "set (entitiesWithinRadius s x y r) = \<dots>" .
  have "distinct (entitiesWithinRadius s x y r)"
    unfolding entitiesWithinRadius_def Let_def by (rule collect_entities_distinct) simp
  with a show ?thesis by simp
qed

theorem entitiesWithinRadius_exact_witness:
  "entitiesWithinRadius example_world 0 40 10 = [5]
   \<and> {fm_entityId c | b c. b \<in> set (world_bodies example_world)
         \<and> componentsByBodyId example_world b = Some c
         \<and> Bounds_points (body_bounds (heap_bodies example_world b)) \<inter> square_points 0 40 10 \<noteq> {}}
       = {5}"
proof -
  have r: "(0::real) \<le> 10" by simp
  have wf: "\<forall>b \<in> set (world_bodies example_world). Bounds_wf (body_bounds (heap_bodies example_world b))"
    by (simp add: example_world_simps Bounds_wf_def example_box_def box_at_def)
  have v: "entitiesWithinRadius example_world 0 40 10 = [5]"
    by (simp add: entitiesWithinRadius_def Query_region_def Bounds_overlaps_def example_world_simps
        example_box_def box_at_def Set_add_def example_component_def)
  from entitiesWithinRadius_exact [OF r wf, of 0 40] v show ?thesis by simp
qed

section \<open>Facts about the spatial component\<close>

lemma accessors_routed_by_mode:
  "CSpatial_isDirty c
     = sub_dirty (current_subcomponent (cs_currentMode c) (cs_gridMode c) (cs_freeMode c))
   \<and> CSpatial_x c = sub_x (current_subcomponent (cs_currentMode c) (cs_gridMode c) (cs_freeMode c))
   \<and> CSpatial_y c = sub_y (current_subcomponent (cs_currentMode c) (cs_gridMode c) (cs_freeMode c))
   \<and> ServerSpatialComponent_x d
       = sub_x (current_subcomponent (ssc_currentMode d) (ssc_gridMode d) (ssc_freeMode d))
   \<and> ServerSpatialComponent_y d
       = sub_y (current_subcomponent (ssc_currentMode d) (ssc_gridMode d) (ssc_freeMode d))"
  by (cases "cs_currentMode c"; cases "ssc_currentMode d")
     (simp_all add: CSpatial_isDirty_def CSpatial_x_def CSpatial_y_def ServerSpatialComponent_x_def
      ServerSpatialComponent_y_def current_subcomponent_def)

text \<open>
  Claim C6. Reading x, y and the dirty flag through the accessors returns the value of the
  current subcomponent in CSpatial, and x and y do so in the earlier ServerSpatialComponent.
  Its isDirty does not: for a component in free mode whose free-mode subcomponent is dirty
  and whose grid-mode subcomponent is clean it answers false, the flag of the subcomponent
  that is not current.
\<close>

theorem server_isDirty_ignores_mode:
  "ssc_currentMode example_server_component = FREE_MODE
   \<and> sub_dirty (current_subcomponent (ssc_currentMode example_server_component)
        (ssc_gridMode example_server_component) (ssc_freeMode example_server_component)) = True
   \<and> ServerSpatialComponent_isDirty example_server_component = False"
  by (simp add: ServerSpatialComponent_isDirty_def example_server_component_def
      current_subcomponent_def)

section \<open>Facts about playAnimation\<close>

text \<open>
  Claim C9. For an animation name the sprite component of the entity does not have,
  playAnimation raises a GameError naming the entity and the animation; it returns no
  boolean then. Whenever it returns, the result is true and the component has the
  animation.
\<close>

theorem playAnimation_unknown_name_raises:
  "(getSpriteComponent rs entityId = Inr c \<and> spr_animatedSprites c name = None \<longrightarrow>
      playAnimation env rs entityId name onFinish
        = Inl (GameError (''Entity '' @ Number_toString entityId @ '' has no animation ''
                 @ [CHR 0x27] @ name @ [CHR 0x27])))
   \<and> (playAnimation env rs entityId name onFinish = Inr (r, rs') \<longrightarrow>
        r = True \<and> (\<exists>c. getSpriteComponent rs entityId = Inr c \<and> name \<in> dom (spr_animatedSprites c)))"
  by (auto simp: playAnimation_def split: sum.splits option.splits)

text \<open>Asking the sprite of entity 11, which only has the animation "dig", for "fly"
  raises.\<close>

theorem playAnimation_unknown_name_throws:
  "playAnimation example_render_env example_render 11 ''fly'' False
     = Inl (GameError (''Entity 11 has no animation '' @ [CHR 0x27] @ ''fly'' @ [CHR 0x27]))"
  by (simp add: playAnimation_def getSpriteComponent_def RenderSystem_getComponent_def
      example_render_def example_sprite_def Number_toString.simps digit_char_def)

theorem playAnimation_unknown_name_raises_witness:
  "getSpriteComponent example_render 11 = Inr example_sprite
   \<and> playAnimation example_render_env example_render 11 ''jump'' True
       = Inl (GameError (''Entity '' @ Number_toString 11 @ '' has no animation ''
                @ [CHR 0x27] @ ''jump'' @ [CHR 0x27]))
   \<and> fst (projr (playAnimation example_render_env example_render 11 ''dig'' True)) = True"
proof -
  have g: "getSpriteComponent example_render 11 = Inr example_sprite"
    by (simp add: getSpriteComponent_def RenderSystem_getComponent_def example_render_def)
  have n: "spr_animatedSprites example_sprite ''jump'' = None"
    by (simp add: example_sprite_def)
  have ok: "playAnimation example_render_env example_render 11 ''dig'' True
      = Inr (True, restartAnimation 11 ''dig'' True
          (example_render\<lparr>rs_components := (rs_components example_render)(11 \<mapsto>
             SPRITE (example_sprite\<lparr>spr_currentSprite := Some (AnimatedSprite ''dig''),
                                    spr_activeAnimation := Some ''dig''\<rparr>))\<rparr>))"
    by (simp add: playAnimation_def g spriteCompSetActiveSprite_def example_render_env_def
        example_sprite_def)
  from playAnimation_unknown_name_raises
    [of example_render 11 example_sprite "''jump''" example_render_env True]
    playAnimation_unknown_name_raises
    [of example_render 11 example_sprite "''dig''" example_render_env True True
        "restartAnimation 11 ''dig'' True
          (example_render\<lparr>rs_components := (rs_components example_render)(11 \<mapsto>
             SPRITE (example_sprite\<lparr>spr_currentSprite := Some (AnimatedSprite ''dig''),
                                    spr_activeAnimation := Some ''dig''\<rparr>))\<rparr>)"]
    g n ok
  show ?thesis by simp
qed

end
